theory Spec2Isabelle
  imports Main
begin

section \<open>JavaScript values and the runtime operations the chains use\<close>

text \<open>
  The values that \<open>JSON.parse\<close> can return, and \<open>undefined\<close> (what reading a missing
  property gives). A number is kept as the decimal text that the runtime's conversion to
  string gives it: converting it to a string and handing it on to the caller is all the
  chains do with a number. An object is the list of its own properties.
\<close>

datatype jsvalue =
    JUndefined
  | JNull
  | JBoolean bool
  | JNumber string
  | JString string
  | JArray "jsvalue list"
  | JObject "(string \<times> jsvalue) list"

text \<open>
  What can be thrown, handed to a callback as its error argument, or be the reason of a
  rejected promise: the error object of the request library (kept abstract, type \<open>'e\<close>),
  \<open>new Error(message)\<close>, and the two exceptions of the runtime that the chains can raise.
\<close>

datatype 'e jserror =
    RequestError 'e
  | Error string
  | SyntaxError
  | TypeError

text \<open>
  Conversion to string, as \<open>'text' + v\<close> performs it. An array is joined with commas,
  \<open>null\<close> and \<open>undefined\<close> elements giving the empty text. An object of \<open>JSON.parse\<close>
  inherits \<open>toString\<close>, unless it has an own property of that name: the own property is
  not callable, \<open>valueOf\<close> returns the object itself, and the conversion throws a TypeError.
\<close>

fun ToString :: "jsvalue \<Rightarrow> 'e jserror + string"
  and join :: "jsvalue list \<Rightarrow> 'e jserror + string"
  and element :: "jsvalue \<Rightarrow> 'e jserror + string" where
  "ToString JUndefined = Inr ''undefined''"
| "ToString JNull = Inr ''null''"
| "ToString (JBoolean b) = Inr (if b then ''true'' else ''false'')"
| "ToString (JNumber text) = Inr text"
| "ToString (JString s) = Inr s"
| "ToString (JArray xs) = join xs"
| "ToString (JObject ps) =
     (if ''toString'' \<in> fst ` set ps then Inl TypeError else Inr ''[object Object]'')"
| "join [] = Inr ''''"
| "join [x] = element x"
| "join (x # y # ys) =
     (case element x of
        Inl e \<Rightarrow> Inl e
      | Inr s \<Rightarrow> (case join (y # ys) of Inl e \<Rightarrow> Inl e | Inr t \<Rightarrow> Inr (s @ '','' @ t)))"
| "element JUndefined = Inr ''''"
| "element JNull = Inr ''''"
| "element (JBoolean b) = ToString (JBoolean b)"
| "element (JNumber text) = ToString (JNumber text)"
| "element (JString s) = ToString (JString s)"
| "element (JArray xs) = ToString (JArray xs)"
| "element (JObject ps) = ToString (JObject ps)"

text \<open>The expression \<open>v.id\<close>: a TypeError on \<open>null\<close> and \<open>undefined\<close>, the own property
  of an object, and \<open>undefined\<close> on everything else (a boolean, a number, a string and an
  array have no property \<open>id\<close>).\<close>

fun get_id :: "jsvalue \<Rightarrow> 'e jserror + jsvalue" where
  "get_id JUndefined = Inl TypeError"
| "get_id JNull = Inl TypeError"
| "get_id (JObject ps) = Inr (case map_of ps ''id'' of None \<Rightarrow> JUndefined | Some v \<Rightarrow> v)"
| "get_id v = Inr JUndefined"

text \<open>The expression \<open>text + v\<close> for a string \<open>text\<close>.\<close>

definition plus :: "string \<Rightarrow> jsvalue \<Rightarrow> 'e jserror + string" where
  "plus text v = (case ToString v of Inl e \<Rightarrow> Inl e | Inr t \<Rightarrow> Inr (text @ t))"

text \<open>The expression \<open>text + v.id\<close>: the property is read, then converted.\<close>

definition plus_id :: "string \<Rightarrow> jsvalue \<Rightarrow> 'e jserror + string" where
  "plus_id text v = (case get_id v of Inl e \<Rightarrow> Inl e | Inr i \<Rightarrow> plus text i)"

text \<open>
  \<open>JSON.parse(body)\<close>. The grammar of JSON is a parameter \<open>parse\<close>, from a text to the
  value it denotes, \<open>None\<close> when the text is not JSON. A body that is \<open>undefined\<close> (the
  value \<open>None\<close> here) is converted to the text \<open>undefined\<close>, which is not JSON. A
  SyntaxError is thrown in both cases.
\<close>

fun JSON_parse :: "(string \<Rightarrow> jsvalue option) \<Rightarrow> string option \<Rightarrow> 'e jserror + jsvalue" where
  "JSON_parse parse None = Inl SyntaxError"
| "JSON_parse parse (Some text) =
     (case parse text of None \<Rightarrow> Inl SyntaxError | Some v \<Rightarrow> Inr v)"

text \<open>The decimal text of a status code, as \<open>'text' + res.statusCode\<close> appends it.\<close>

fun decimal :: "nat \<Rightarrow> string" where
  "decimal n =
     (if n < 10 then [''0123456789'' ! n]
      else decimal (n div 10) @ [''0123456789'' ! (n mod 10)])"

declare decimal.simps [simp del]

section \<open>The callback chains\<close>

text \<open>\<open>var apiURL\<close>: assigned once, at the top of the file.\<close>

definition apiURL :: string where
  "apiURL = ''http://ctrl-alt-create.net/api/''"

text \<open>
  What \<open>request\<close> hands to its callback as \<open>(err, res, body)\<close>: an error, with \<open>res\<close>
  and \<open>body\<close> undefined, or no error, a response with its status code, and the body.
\<close>

datatype 'e response =
    Failed 'e
  | Completed nat string

fun body :: "'e response \<Rightarrow> string option" where
  "body (Failed e) = None"
| "body (Completed status text) = Some text"

text \<open>An argument of the caller's callback: an error, or a value.\<close>

datatype 'e arg = Err "'e jserror" | Val jsvalue

text \<open>
  The state of a run: the state of the outside world \<open>world\<close> (the servers behind the
  request library), the requests issued so far, each with what came back, the calls of
  the caller's callback so far, each with its arguments, and the exception that left a
  callback of \<open>request\<close> uncaught, if one did.
\<close>

record ('e, 'w) state =
  world :: 'w
  issued :: "(string \<times> 'e response) list"
  calls :: "'e arg list list"
  uncaught :: "'e jserror option"

definition init :: "'w \<Rightarrow> ('e, 'w) state" where
  "init w = \<lparr>world = w, issued = [], calls = [], uncaught = None\<rparr>"

text \<open>
  \<open>request(url, cb)\<close>: the collaborator \<open>net\<close> answers the request from the state of the
  world, which it may change, and the callback runs with the answer.
\<close>

definition request ::
  "(string \<Rightarrow> 'w \<Rightarrow> 'e response \<times> 'w) \<Rightarrow> string \<Rightarrow>
   ('e response \<Rightarrow> ('e, 'w) state \<Rightarrow> ('e, 'w) state) \<Rightarrow> ('e, 'w) state \<Rightarrow> ('e, 'w) state" where
  "request net url cb st =
     (case net url (world st) of
        (r, w') \<Rightarrow> cb r (st\<lparr>world := w', issued := issued st @ [(url, r)]\<rparr>))"

text \<open>
  An expression evaluated inside a callback of \<open>request\<close>: when it throws, nothing
  catches the exception and the rest of the callback does not run.
\<close>

definition evaluate ::
  "'e jserror + 'a \<Rightarrow> ('a \<Rightarrow> ('e, 'w) state \<Rightarrow> ('e, 'w) state) \<Rightarrow> ('e, 'w) state \<Rightarrow> ('e, 'w) state" where
  "evaluate expr rest st =
     (case expr of Inl e \<Rightarrow> st\<lparr>uncaught := Some e\<rparr> | Inr v \<Rightarrow> rest v st)"

text \<open>The caller's callback, as an observer: it records the arguments of the call.\<close>

definition record_call :: "'e arg list \<Rightarrow> ('e, 'w) state \<Rightarrow> ('e, 'w) state" where
  "record_call args st = st\<lparr>calls := calls st @ [args]\<rparr>"

text \<open>
  \<open>getComments\<close> (promiseChaining.js, lines 28 to 44). No callback looks at \<open>err\<close> or
  at the status: each parses \<open>body\<close>, reads \<open>id\<close> and issues the next request; the
  last one calls \<open>callback(JSON.parse(body))\<close>.
\<close>

definition getComments ::
  "(string \<Rightarrow> jsvalue option) \<Rightarrow> (string \<Rightarrow> 'w \<Rightarrow> 'e response \<times> 'w) \<Rightarrow> string \<Rightarrow> string \<Rightarrow>
   ('e arg list \<Rightarrow> ('e, 'w) state \<Rightarrow> ('e, 'w) state) \<Rightarrow> ('e, 'w) state \<Rightarrow> ('e, 'w) state" where
  "getComments parse net username postTitle callback =
     request net (apiURL @ ''users/'' @ username) (\<lambda>r.
       evaluate (JSON_parse parse (body r)) (\<lambda>user.
       evaluate (plus_id (apiURL @ ''blogs/'') user) (\<lambda>url.
       request net url (\<lambda>r.
         evaluate (JSON_parse parse (body r)) (\<lambda>blog.
         evaluate (plus_id (apiURL @ ''blogposts/'') blog) (\<lambda>url.
         request net (url @ ''/'' @ postTitle) (\<lambda>r.
           evaluate (JSON_parse parse (body r)) (\<lambda>post.
           evaluate (plus_id (apiURL @ ''comments/'') post) (\<lambda>url.
           request net url (\<lambda>r.
             evaluate (JSON_parse parse (body r)) (\<lambda>comments.
             callback [Val comments])))))))))))"

text \<open>
  \<open>getCommentsHandleErrs\<close> (lines 180 to 217). Each callback first tests \<open>err\<close>, then
  \<open>res.statusCode !== 200\<close>, and calls \<open>callback\<close> with the error in both cases;
  otherwise it goes on as \<open>getComments\<close> does. The locator of the comments is built
  from \<open>apiURL + '/comments/'\<close> (line 202). The last callback calls
  \<open>callback(null, JSON.parse(body))\<close>.
\<close>

definition getCommentsHandleErrs ::
  "(string \<Rightarrow> jsvalue option) \<Rightarrow> (string \<Rightarrow> 'w \<Rightarrow> 'e response \<times> 'w) \<Rightarrow> string \<Rightarrow> string \<Rightarrow>
   ('e arg list \<Rightarrow> ('e, 'w) state \<Rightarrow> ('e, 'w) state) \<Rightarrow> ('e, 'w) state \<Rightarrow> ('e, 'w) state" where
  "getCommentsHandleErrs parse net username postTitle callback =
     request net (apiURL @ ''users/'' @ username) (\<lambda>r.
       case r of
         Failed err \<Rightarrow> callback [Err (RequestError err)]
       | Completed statusCode text \<Rightarrow>
           if statusCode \<noteq> 200
           then callback [Err (Error (''Failed request: status '' @ decimal statusCode))]
           else
       evaluate (JSON_parse parse (Some text)) (\<lambda>user.
       evaluate (plus_id (apiURL @ ''blogs/'') user) (\<lambda>url.
       request net url (\<lambda>r.
         case r of
           Failed err \<Rightarrow> callback [Err (RequestError err)]
         | Completed statusCode text \<Rightarrow>
             if statusCode \<noteq> 200
             then callback [Err (Error (''Failed request: status '' @ decimal statusCode))]
             else
         evaluate (JSON_parse parse (Some text)) (\<lambda>blog.
         evaluate (plus_id (apiURL @ ''blogposts/'') blog) (\<lambda>url.
         request net (url @ ''/'' @ postTitle) (\<lambda>r.
           case r of
             Failed err \<Rightarrow> callback [Err (RequestError err)]
           | Completed statusCode text \<Rightarrow>
               if statusCode \<noteq> 200
               then callback [Err (Error (''Failed request: status '' @ decimal statusCode))]
               else
           evaluate (JSON_parse parse (Some text)) (\<lambda>post.
           evaluate (plus_id (apiURL @ ''/comments/'') post) (\<lambda>url.
           request net url (\<lambda>r.
             case r of
               Failed err \<Rightarrow> callback [Err (RequestError err)]
             | Completed statusCode text \<Rightarrow>
                 if statusCode \<noteq> 200
                 then callback [Err (Error (''Failed request: status '' @ decimal statusCode))]
                 else
             evaluate (JSON_parse parse (Some text)) (\<lambda>comments.
             callback [Val JNull, Val comments])))))))))))"

section \<open>The promise chains\<close>

text \<open>How a promise settles.\<close>

datatype ('x, 'a) settled =
    Rejected 'x
  | Fulfilled 'a

text \<open>
  The state of a run of a promise chain: the state of the outside world, and the
  requests issued so far, each with how the promise of \<open>reqPromise\<close> settled.
\<close>

record ('e, 'w) pstate =
  pworld :: 'w
  requested :: "(string \<times> ('e, string) settled) list"

definition pinit :: "'w \<Rightarrow> ('e, 'w) pstate" where
  "pinit w = \<lparr>pworld = w, requested = []\<rparr>"

text \<open>
  A promise, run to the point where it settles: from the state of the run to how the
  promise settles, and the state then.
\<close>

type_synonym ('e, 'a, 'w) promise =
  "('e, 'w) pstate \<Rightarrow> ('e jserror, 'a) settled \<times> ('e, 'w) pstate"

text \<open>
  \<open>reqPromise(url)\<close>: the collaborator \<open>net\<close> answers from the state of the world, which
  it may change; the promise is fulfilled with the body or rejected with the library's
  error. Which answers of a server the library turns into a rejection is the library's
  business: the chains only see the settled promise.
\<close>

definition reqPromise ::
  "(string \<Rightarrow> 'w \<Rightarrow> ('e, string) settled \<times> 'w) \<Rightarrow> string \<Rightarrow> ('e, string, 'w) promise" where
  "reqPromise net url st =
     (case net url (pworld st) of
        (r, w') \<Rightarrow>
          ((case r of Rejected e \<Rightarrow> Rejected (RequestError e) | Fulfilled text \<Rightarrow> Fulfilled text),
           st\<lparr>pworld := w', requested := requested st @ [(url, r)]\<rparr>))"

text \<open>
  \<open>p.then(f)\<close>: when \<open>p\<close> is rejected \<open>f\<close> is not called and the new promise is rejected
  with the same reason; when \<open>p\<close> is fulfilled \<open>f\<close> is called with the value, and the new
  promise settles as what \<open>f\<close> returns does.
\<close>

definition promise_then ::
  "('e, 'a, 'w) promise \<Rightarrow> ('a \<Rightarrow> ('e, 'b, 'w) promise) \<Rightarrow> ('e, 'b, 'w) promise" where
  "promise_then p f st =
     (case p st of
        (Rejected e, st') \<Rightarrow> (Rejected e, st')
      | (Fulfilled v, st') \<Rightarrow> f v st')"

text \<open>A callback of \<open>then\<close> that returns a plain value: the new promise is fulfilled
  with it.\<close>

definition returns :: "'a \<Rightarrow> ('e, 'a, 'w) promise" where
  "returns v st = (Fulfilled v, st)"

text \<open>An expression evaluated inside a callback of \<open>then\<close>: when it throws, the new
  promise is rejected with the exception and the rest of the callback does not run.\<close>

definition evaluate_in_then ::
  "'e jserror + 'a \<Rightarrow> ('a \<Rightarrow> ('e, 'b, 'w) promise) \<Rightarrow> ('e, 'b, 'w) promise" where
  "evaluate_in_then expr rest st =
     (case expr of Inl e \<Rightarrow> (Rejected e, st) | Inr v \<Rightarrow> rest v st)"

text \<open>
  \<open>getCommsPromisified\<close> (lines 83 to 127): four calls of \<open>then\<close> on the promise of
  the first request; the first three callbacks parse the body, read \<open>id\<close> and return
  the promise of the next request, the fourth returns the parsed body.
\<close>

definition getCommsPromisified ::
  "(string \<Rightarrow> jsvalue option) \<Rightarrow> (string \<Rightarrow> 'w \<Rightarrow> ('e, string) settled \<times> 'w) \<Rightarrow>
   string \<Rightarrow> string \<Rightarrow> ('e, jsvalue, 'w) promise" where
  "getCommsPromisified parse net username postTitle =
     promise_then (promise_then (promise_then (promise_then
       (reqPromise net (apiURL @ ''users/'' @ username))
       (\<lambda>text.
          evaluate_in_then (JSON_parse parse (Some text)) (\<lambda>user.
          evaluate_in_then (plus_id (apiURL @ ''blogs/'') user) (\<lambda>url.
          reqPromise net url))))
       (\<lambda>text.
          evaluate_in_then (JSON_parse parse (Some text)) (\<lambda>blog.
          evaluate_in_then (plus_id (apiURL @ ''blogposts/'') blog) (\<lambda>url.
          reqPromise net (url @ ''/'' @ postTitle)))))
       (\<lambda>text.
          evaluate_in_then (JSON_parse parse (Some text)) (\<lambda>post.
          evaluate_in_then (plus_id (apiURL @ ''comments/'') post) (\<lambda>url.
          reqPromise net url))))
       (\<lambda>text.
          evaluate_in_then (JSON_parse parse (Some text)) returns)"

text \<open>\<open>getCommsPromisified2\<close> (lines 142 to 159).\<close>

definition getCommsPromisified2 ::
  "(string \<Rightarrow> jsvalue option) \<Rightarrow> (string \<Rightarrow> 'w \<Rightarrow> ('e, string) settled \<times> 'w) \<Rightarrow>
   string \<Rightarrow> string \<Rightarrow> ('e, jsvalue, 'w) promise" where
  "getCommsPromisified2 parse net username postTitle =
     promise_then (promise_then (promise_then (promise_then
       (reqPromise net (apiURL @ ''users/'' @ username))
       (\<lambda>text.
          evaluate_in_then (JSON_parse parse (Some text)) (\<lambda>user.
          evaluate_in_then (plus_id (apiURL @ ''blogs/'') user) (\<lambda>url.
          reqPromise net url))))
       (\<lambda>text.
          evaluate_in_then (JSON_parse parse (Some text)) (\<lambda>blog.
          evaluate_in_then (plus_id (apiURL @ ''blogposts/'') blog) (\<lambda>url.
          reqPromise net (url @ ''/'' @ postTitle)))))
       (\<lambda>text.
          evaluate_in_then (JSON_parse parse (Some text)) (\<lambda>post.
          evaluate_in_then (plus_id (apiURL @ ''comments/'') post) (\<lambda>url.
          reqPromise net url))))
       (\<lambda>text.
          evaluate_in_then (JSON_parse parse (Some text)) returns)"

text \<open>\<open>getCommsPromisifiedHandleErrs\<close> (lines 229 to 246).\<close>

definition getCommsPromisifiedHandleErrs ::
  "(string \<Rightarrow> jsvalue option) \<Rightarrow> (string \<Rightarrow> 'w \<Rightarrow> ('e, string) settled \<times> 'w) \<Rightarrow>
   string \<Rightarrow> string \<Rightarrow> ('e, jsvalue, 'w) promise" where
  "getCommsPromisifiedHandleErrs parse net username postTitle =
     promise_then (promise_then (promise_then (promise_then
       (reqPromise net (apiURL @ ''users/'' @ username))
       (\<lambda>text.
          evaluate_in_then (JSON_parse parse (Some text)) (\<lambda>user.
          evaluate_in_then (plus_id (apiURL @ ''blogs/'') user) (\<lambda>url.
          reqPromise net url))))
       (\<lambda>text.
          evaluate_in_then (JSON_parse parse (Some text)) (\<lambda>blog.
          evaluate_in_then (plus_id (apiURL @ ''blogposts/'') blog) (\<lambda>url.
          reqPromise net (url @ ''/'' @ postTitle)))))
       (\<lambda>text.
          evaluate_in_then (JSON_parse parse (Some text)) (\<lambda>post.
          evaluate_in_then (plus_id (apiURL @ ''comments/'') post) (\<lambda>url.
          reqPromise net url))))
       (\<lambda>text.
          evaluate_in_then (JSON_parse parse (Some text)) returns)"

section \<open>A server to run the chains against\<close>

text \<open>
  The grammar of JSON on the four bodies the server below sends; every other text it
  sends is not JSON.
\<close>

definition demo_parse :: "string \<Rightarrow> jsvalue option" where
  "demo_parse text =
     (if text = ''{\"id\":7}'' then Some (JObject [(''id'', JNumber ''7'')])
      else if text = ''{\"id\":8}'' then Some (JObject [(''id'', JNumber ''8'')])
      else if text = ''{\"id\":42}'' then Some (JObject [(''id'', JNumber ''42'')])
      else if text = ''{\"id\":99}'' then Some (JObject [(''id'', JNumber ''99'')])
      else if text = ''[{\"text\":\"nice\"}]''
        then Some (JArray [JObject [(''text'', JString ''nice'')]])
      else None)"

text \<open>
  What the server answers to a locator: user peter has blog 7, whose post
  Promise-Chaining is post 99, with one comment; user paul has id 8 and no blog. The
  server reads a doubled slash as one. Everything else is not found.
\<close>

definition demo_answer :: "string \<Rightarrow> nat \<times> string" where
  "demo_answer url =
     (if url = ''http://ctrl-alt-create.net/api/users/peter'' then (200, ''{\"id\":7}'')
      else if url = ''http://ctrl-alt-create.net/api/users/paul'' then (200, ''{\"id\":8}'')
      else if url = ''http://ctrl-alt-create.net/api/blogs/7'' then (200, ''{\"id\":42}'')
      else if url = ''http://ctrl-alt-create.net/api/blogposts/42/Promise-Chaining''
        then (200, ''{\"id\":99}'')
      else if url = ''http://ctrl-alt-create.net/api/comments/99''
        \<or> url = ''http://ctrl-alt-create.net/api//comments/99''
        then (200, ''[{\"text\":\"nice\"}]'')
      else (404, ''Not Found''))"

text \<open>The server behind \<open>request\<close>; the state of the world is the number of requests
  it has served.\<close>

definition demo_net :: "string \<Rightarrow> nat \<Rightarrow> string response \<times> nat" where
  "demo_net url served =
     (case demo_answer url of (status, text) \<Rightarrow> (Completed status text, Suc served))"

text \<open>The same server behind \<open>reqPromise\<close>, the library rejecting every status but 200
  with an error that names the status.\<close>

definition demo_pnet :: "string \<Rightarrow> nat \<Rightarrow> (string, string) settled \<times> nat" where
  "demo_pnet url served =
     (case demo_answer url of
        (status, text) \<Rightarrow>
          (if status = 200 then Fulfilled text else Rejected (''StatusCodeError: '' @ decimal status),
           Suc served))"

text \<open>A network that is down: every request fails.\<close>

definition down_net :: "string \<Rightarrow> nat \<Rightarrow> string response \<times> nat" where
  "down_net url served = (Failed ''ECONNREFUSED'', Suc served)"

definition down_pnet :: "string \<Rightarrow> nat \<Rightarrow> (string, string) settled \<times> nat" where
  "down_pnet url served = (Rejected ''ECONNREFUSED'', Suc served)"

text \<open>A server that answers every request with status 200 and a page of HTML.\<close>

definition html_net :: "string \<Rightarrow> nat \<Rightarrow> string response \<times> nat" where
  "html_net url served = (Completed 200 ''<html></html>'', Suc served)"

definition html_pnet :: "string \<Rightarrow> nat \<Rightarrow> (string, string) settled \<times> nat" where
  "html_pnet url served = (Fulfilled ''<html></html>'', Suc served)"

section \<open>The status code behind the promise\<close>

text \<open>
  The chains call \<open>reqPromise\<close> with a locator and nothing else, and they never see a
  status code: the library looks at the response and settles the promise. Its decision
  is a parameter here, \<open>fulfils\<close>: the status codes for which the library fulfils the
  promise with the body. For every other status it rejects the promise with an error
  that holds the status code and the body, and for a request that failed with an error
  that holds the cause.
\<close>

datatype 'e library_error =
    Cause 'e
  | StatusCode nat string

definition through_library ::
  "(nat \<Rightarrow> bool) \<Rightarrow> (string \<Rightarrow> 'w \<Rightarrow> 'e response \<times> 'w) \<Rightarrow>
   string \<Rightarrow> 'w \<Rightarrow> ('e library_error, string) settled \<times> 'w" where
  "through_library fulfils net url w =
     (case net url w of
        (Failed err, w') \<Rightarrow> (Rejected (Cause err), w')
      | (Completed statusCode text, w') \<Rightarrow>
          (if fulfils statusCode then Fulfilled text else Rejected (StatusCode statusCode text),
           w'))"

text \<open>What request-promise fulfils when it is given no options: the statuses from 200
  to 299.\<close>

definition two_hundreds :: "nat \<Rightarrow> bool" where
  "two_hundreds statusCode = (200 \<le> statusCode \<and> statusCode < 300)"

text \<open>The server of the section before, sending the status \<open>s\<close> where that one sends
  200.\<close>

definition status_net :: "nat \<Rightarrow> string \<Rightarrow> nat \<Rightarrow> string response \<times> nat" where
  "status_net s url served =
     (case demo_answer url of
        (status, text) \<Rightarrow> (Completed (if status = 200 then s else status) text, Suc served))"

section \<open>Reading the record of a run\<close>

text \<open>The two tests that \<open>getCommentsHandleErrs\<close> makes on what came back, \<open>if (err)\<close>
  and \<open>res.statusCode !== 200\<close>: a response is accepted when neither fires.\<close>

fun accepted :: "'e response \<Rightarrow> bool" where
  "accepted (Failed err) = False"
| "accepted (Completed statusCode text) = (statusCode = 200)"

text \<open>What \<open>getCommentsHandleErrs\<close> hands to the caller's callback for a response that
  one of the two tests refuses: \<open>err\<close> itself, or a new \<open>Error\<close> whose message ends in the
  status code.\<close>

fun failure :: "'e response \<Rightarrow> 'e jserror" where
  "failure (Failed err) = RequestError err"
| "failure (Completed statusCode text) =
     Error (''Failed request: status '' @ decimal statusCode)"

text \<open>A request that completed: \<open>request\<close> reported no error.\<close>

fun completed :: "'e response \<Rightarrow> bool" where
  "completed (Failed err) = False"
| "completed (Completed statusCode text) = True"

fun fulfilled :: "('x, 'a) settled \<Rightarrow> bool" where
  "fulfilled (Rejected e) = False"
| "fulfilled (Fulfilled v) = True"

section \<open>Facts about the runtime operations\<close>

lemma JSON_parse_Inr:
  "(JSON_parse parse b = Inr v) = (\<exists>text. b = Some text \<and> parse text = Some v)"
  by (cases b) (auto split: option.splits)

lemma JSON_parse_Inl:
  "(JSON_parse parse b = Inl e) =
     (e = SyntaxError \<and> (b = None \<or> (\<exists>text. b = Some text \<and> parse text = None)))"
  by (cases b) (auto split: option.splits)

lemma body_Some: "(body r = Some text) = (\<exists>status. r = Completed status text)"
  by (cases r) auto

lemma ToString_throws: "(ToString v :: 'e jserror + string) = Inl e \<Longrightarrow> e = TypeError"
  and join_throws: "(join vs :: 'e jserror + string) = Inl e \<Longrightarrow> e = TypeError"
  and element_throws: "(element v :: 'e jserror + string) = Inl e \<Longrightarrow> e = TypeError"
  by (induction v and vs and v rule: ToString_join_element.induct)
    (auto split: if_splits sum.splits)

lemma get_id_throws: "(get_id v :: 'e jserror + jsvalue) = Inl e \<Longrightarrow> e = TypeError"
  by (cases v) auto

lemma plus_id_throws: "(plus_id text v :: 'e jserror + string) = Inl e \<Longrightarrow> e = TypeError"
  by (auto simp: plus_id_def plus_def split: sum.splits dest: get_id_throws ToString_throws)

lemma digit_inj:
  assumes "i < 10" "j < 10" "''0123456789'' ! i = ''0123456789'' ! j"
  shows "i = j"
proof -
  have "distinct ''0123456789''" by simp
  moreover have "i < length ''0123456789''" "j < length ''0123456789''"
    using assms by simp_all
  ultimately show ?thesis using assms(3) by (simp only: nth_eq_iff_index_eq)
qed

lemma decimal_not_Nil: "decimal n \<noteq> []"
  by (subst decimal.simps) simp

lemma decimal_inj: "decimal a = decimal b \<Longrightarrow> a = b"
proof (induction a arbitrary: b rule: decimal.induct)
  case (1 a)
  show ?case
  proof (cases "a < 10")
    case small: True
    show ?thesis
    proof (cases "b < 10")
      case True
      with small "1.prems" show ?thesis
        by (simp add: decimal.simps [of a] decimal.simps [of b] digit_inj)
    next
      case False
      with small "1.prems" decimal_not_Nil [of "b div 10"] show ?thesis
        by (simp add: decimal.simps [of a] decimal.simps [of b] Cons_eq_append_conv)
    qed
  next
    case large: False
    show ?thesis
    proof (cases "b < 10")
      case True
      with large "1.prems" decimal_not_Nil [of "a div 10"] show ?thesis
        by (simp add: decimal.simps [of a] decimal.simps [of b] append_eq_Cons_conv)
    next
      case False
      with large "1.prems" have eq: "decimal (a div 10) = decimal (b div 10)"
        and d: "''0123456789'' ! (a mod 10) = ''0123456789'' ! (b mod 10)"
        by (simp_all add: decimal.simps [of a] decimal.simps [of b])
      from "1.IH" [OF large eq] have "a div 10 = b div 10" .
      moreover from d have "a mod 10 = b mod 10" by (intro digit_inj) simp_all
      ultimately show ?thesis by (metis div_mult_mod_eq)
    qed
  qed
qed

lemma decimal_404: "decimal 404 = ''404''"
  by (simp add: decimal.simps)

section \<open>The runs against the server\<close>

lemmas callback_defs =
  request_def evaluate_def record_call_def init_def plus_id_def plus_def apiURL_def

lemmas promise_defs =
  reqPromise_def promise_then_def evaluate_in_then_def returns_def pinit_def plus_id_def
  plus_def apiURL_def

lemmas demo_defs = demo_net_def demo_pnet_def demo_answer_def demo_parse_def

lemma getComments_peter:
  "getComments demo_parse demo_net ''peter'' ''Promise-Chaining'' record_call (init 0) =
     \<lparr>world = 4,
      issued =
        [(''http://ctrl-alt-create.net/api/users/peter'', Completed 200 ''{\"id\":7}''),
         (''http://ctrl-alt-create.net/api/blogs/7'', Completed 200 ''{\"id\":42}''),
         (''http://ctrl-alt-create.net/api/blogposts/42/Promise-Chaining'',
          Completed 200 ''{\"id\":99}''),
         (''http://ctrl-alt-create.net/api/comments/99'',
          Completed 200 ''[{\"text\":\"nice\"}]'')],
      calls = [[Val (JArray [JObject [(''text'', JString ''nice'')]])]],
      uncaught = None\<rparr>"
  by (simp add: getComments_def callback_defs demo_defs)

lemma getComments_not_a_real_post:
  "getComments demo_parse demo_net ''peter'' ''Not-A-Real-Post'' record_call (init 0) =
     \<lparr>world = 3,
      issued =
        [(''http://ctrl-alt-create.net/api/users/peter'', Completed 200 ''{\"id\":7}''),
         (''http://ctrl-alt-create.net/api/blogs/7'', Completed 200 ''{\"id\":42}''),
         (''http://ctrl-alt-create.net/api/blogposts/42/Not-A-Real-Post'',
          Completed 404 ''Not Found'')],
      calls = [],
      uncaught = Some SyntaxError\<rparr>"
  by (simp add: getComments_def callback_defs demo_defs)

lemma getCommentsHandleErrs_peter:
  "getCommentsHandleErrs demo_parse demo_net ''peter'' ''Promise-Chaining'' record_call (init 0) =
     \<lparr>world = 4,
      issued =
        [(''http://ctrl-alt-create.net/api/users/peter'', Completed 200 ''{\"id\":7}''),
         (''http://ctrl-alt-create.net/api/blogs/7'', Completed 200 ''{\"id\":42}''),
         (''http://ctrl-alt-create.net/api/blogposts/42/Promise-Chaining'',
          Completed 200 ''{\"id\":99}''),
         (''http://ctrl-alt-create.net/api//comments/99'',
          Completed 200 ''[{\"text\":\"nice\"}]'')],
      calls = [[Val JNull, Val (JArray [JObject [(''text'', JString ''nice'')]])]],
      uncaught = None\<rparr>"
  by (simp add: getCommentsHandleErrs_def callback_defs demo_defs)

lemma getCommentsHandleErrs_not_a_real_post:
  "getCommentsHandleErrs demo_parse demo_net ''peter'' ''Not-A-Real-Post'' record_call (init 0) =
     \<lparr>world = 3,
      issued =
        [(''http://ctrl-alt-create.net/api/users/peter'', Completed 200 ''{\"id\":7}''),
         (''http://ctrl-alt-create.net/api/blogs/7'', Completed 200 ''{\"id\":42}''),
         (''http://ctrl-alt-create.net/api/blogposts/42/Not-A-Real-Post'',
          Completed 404 ''Not Found'')],
      calls = [[Err (Error ''Failed request: status 404'')]],
      uncaught = None\<rparr>"
  by (simp add: getCommentsHandleErrs_def callback_defs demo_defs decimal_404)

lemma getCommentsHandleErrs_paul:
  "getCommentsHandleErrs demo_parse demo_net ''paul'' ''Not-A-Real-Post'' record_call (init 0) =
     \<lparr>world = 2,
      issued =
        [(''http://ctrl-alt-create.net/api/users/paul'', Completed 200 ''{\"id\":8}''),
         (''http://ctrl-alt-create.net/api/blogs/8'', Completed 404 ''Not Found'')],
      calls = [[Err (Error ''Failed request: status 404'')]],
      uncaught = None\<rparr>"
  by (simp add: getCommentsHandleErrs_def callback_defs demo_defs decimal_404)

lemma getCommentsHandleErrs_nobody:
  "getCommentsHandleErrs demo_parse demo_net ''nobody'' ''Promise-Chaining'' record_call (init 0) =
     \<lparr>world = 1,
      issued =
        [(''http://ctrl-alt-create.net/api/users/nobody'', Completed 404 ''Not Found'')],
      calls = [[Err (Error ''Failed request: status 404'')]],
      uncaught = None\<rparr>"
  by (simp add: getCommentsHandleErrs_def callback_defs demo_defs decimal_404)

lemma getCommentsHandleErrs_down:
  "getCommentsHandleErrs demo_parse down_net ''peter'' ''Promise-Chaining'' record_call (init 0) =
     \<lparr>world = 1,
      issued = [(''http://ctrl-alt-create.net/api/users/peter'', Failed ''ECONNREFUSED'')],
      calls = [[Err (RequestError ''ECONNREFUSED'')]],
      uncaught = None\<rparr>"
  by (simp add: getCommentsHandleErrs_def callback_defs down_net_def)

lemma getCommentsHandleErrs_html:
  "getCommentsHandleErrs demo_parse html_net ''peter'' ''Promise-Chaining'' record_call (init 0) =
     \<lparr>world = 1,
      issued = [(''http://ctrl-alt-create.net/api/users/peter'', Completed 200 ''<html></html>'')],
      calls = [],
      uncaught = Some SyntaxError\<rparr>"
  by (simp add: getCommentsHandleErrs_def callback_defs html_net_def demo_parse_def)

lemma getComments_html:
  "getComments demo_parse html_net ''peter'' ''Promise-Chaining'' record_call (init 0) =
     \<lparr>world = 1,
      issued = [(''http://ctrl-alt-create.net/api/users/peter'', Completed 200 ''<html></html>'')],
      calls = [],
      uncaught = Some SyntaxError\<rparr>"
  by (simp add: getComments_def callback_defs html_net_def demo_parse_def)

lemma getComments_down:
  "getComments demo_parse down_net ''peter'' ''Promise-Chaining'' record_call (init 0) =
     \<lparr>world = 1,
      issued = [(''http://ctrl-alt-create.net/api/users/peter'', Failed ''ECONNREFUSED'')],
      calls = [],
      uncaught = Some SyntaxError\<rparr>"
  by (simp add: getComments_def callback_defs down_net_def)

lemma getCommsPromisified2_peter:
  "getCommsPromisified2 demo_parse demo_pnet ''peter'' ''Promise-Chaining'' (pinit 0) =
     (Fulfilled (JArray [JObject [(''text'', JString ''nice'')]]),
      \<lparr>pworld = 4,
       requested =
         [(''http://ctrl-alt-create.net/api/users/peter'', Fulfilled ''{\"id\":7}''),
          (''http://ctrl-alt-create.net/api/blogs/7'', Fulfilled ''{\"id\":42}''),
          (''http://ctrl-alt-create.net/api/blogposts/42/Promise-Chaining'',
           Fulfilled ''{\"id\":99}''),
          (''http://ctrl-alt-create.net/api/comments/99'',
           Fulfilled ''[{\"text\":\"nice\"}]'')]\<rparr>)"
  by (simp add: getCommsPromisified2_def promise_defs demo_defs)

lemma getCommsPromisified2_html:
  "getCommsPromisified2 demo_parse html_pnet ''peter'' ''Promise-Chaining'' (pinit 0) =
     (Rejected SyntaxError,
      \<lparr>pworld = 1,
       requested =
         [(''http://ctrl-alt-create.net/api/users/peter'', Fulfilled ''<html></html>'')]\<rparr>)"
  by (simp add: getCommsPromisified2_def promise_defs html_pnet_def demo_parse_def)

lemma getCommsPromisifiedHandleErrs_html:
  "getCommsPromisifiedHandleErrs demo_parse html_pnet ''peter'' ''Promise-Chaining'' (pinit 0) =
     (Rejected SyntaxError,
      \<lparr>pworld = 1,
       requested =
         [(''http://ctrl-alt-create.net/api/users/peter'', Fulfilled ''<html></html>'')]\<rparr>)"
  by (simp add: getCommsPromisifiedHandleErrs_def promise_defs html_pnet_def demo_parse_def)

lemma getCommsPromisifiedHandleErrs_not_a_real_post:
  "getCommsPromisifiedHandleErrs demo_parse demo_pnet ''peter'' ''Not-A-Real-Post'' (pinit 0) =
     (Rejected (RequestError ''StatusCodeError: 404''),
      \<lparr>pworld = 3,
       requested =
         [(''http://ctrl-alt-create.net/api/users/peter'', Fulfilled ''{\"id\":7}''),
          (''http://ctrl-alt-create.net/api/blogs/7'', Fulfilled ''{\"id\":42}''),
          (''http://ctrl-alt-create.net/api/blogposts/42/Not-A-Real-Post'',
           Rejected ''StatusCodeError: 404'')]\<rparr>)"
  by (simp add: getCommsPromisifiedHandleErrs_def promise_defs demo_defs decimal_404)

section \<open>Chains in which every step succeeds\<close>

lemmas run_splits = prod.split response.split sum.split option.split settled.split

text \<open>
  C1, as stated: whenever every request completes (with status 200, for the variant
  that tests the status), the chain delivers the parsed body of the comments request.
  It does not. For user peter and the title Not-A-Real-Post the three requests of
  \<open>getComments\<close> complete, the third with status 404 and a body that is not JSON:
  \<open>JSON.parse\<close> throws, no request for the comments is issued and the caller's callback
  is never called. Against a server that answers every request with status 200 and a
  page of HTML, the one request of \<open>getCommentsHandleErrs\<close> completes with status 200,
  and the same happens; the one request of \<open>getCommsPromisified2\<close> is fulfilled, and
  the promise of the chain is rejected.
\<close>

theorem all_steps_succeed_counterexample:
  "getComments demo_parse demo_net ''peter'' ''Not-A-Real-Post'' record_call (init 0) =
     \<lparr>world = 3,
      issued =
        [(''http://ctrl-alt-create.net/api/users/peter'', Completed 200 ''{\"id\":7}''),
         (''http://ctrl-alt-create.net/api/blogs/7'', Completed 200 ''{\"id\":42}''),
         (''http://ctrl-alt-create.net/api/blogposts/42/Not-A-Real-Post'',
          Completed 404 ''Not Found'')],
      calls = [],
      uncaught = Some SyntaxError\<rparr> \<and>
   getCommentsHandleErrs demo_parse html_net ''peter'' ''Promise-Chaining'' record_call (init 0) =
     \<lparr>world = 1,
      issued = [(''http://ctrl-alt-create.net/api/users/peter'', Completed 200 ''<html></html>'')],
      calls = [],
      uncaught = Some SyntaxError\<rparr> \<and>
   getCommsPromisified2 demo_parse html_pnet ''peter'' ''Promise-Chaining'' (pinit 0) =
     (Rejected SyntaxError,
      \<lparr>pworld = 1,
       requested =
         [(''http://ctrl-alt-create.net/api/users/peter'', Fulfilled ''<html></html>'')]\<rparr>)"
  by (simp add: getComments_not_a_real_post getCommentsHandleErrs_html
      getCommsPromisified2_html)

text \<open>
  C1, amended: in every run in which every request completes (with status 200 for
  \<open>getCommentsHandleErrs\<close>, fulfilled for the promise chain) and no step throws while it
  decodes a body or builds the next locator, exactly four requests are issued, in order:
  the first for the user name, each later one for the locator built from the \<open>id\<close> read
  in the body that the request before it returned, the third with the post title
  appended. The value delivered, once, is the parsed body of the fourth:
  \<open>callback(comments)\<close>, \<open>callback(null, comments)\<close>, a promise fulfilled with it.
\<close>

theorem all_steps_succeed:
  fixes net :: "string \<Rightarrow> 'w \<Rightarrow> 'e response \<times> 'w"
    and pnet :: "string \<Rightarrow> 'w \<Rightarrow> ('e, string) settled \<times> 'w"
  shows
  "(let st' = getComments parse net username postTitle record_call (init w) in
     (\<forall>(u, r) \<in> set (issued st'). completed r) \<and> uncaught st' = None \<longrightarrow>
     (\<exists>s0 t0 user u1 s1 t1 blog u2 s2 t2 post u3 s3 t3 comments.
        issued st' =
          [(apiURL @ ''users/'' @ username, Completed s0 t0),
           (u1, Completed s1 t1),
           (u2 @ ''/'' @ postTitle, Completed s2 t2),
           (u3, Completed s3 t3)] \<and>
        parse t0 = Some user \<and>
        plus_id (apiURL @ ''blogs/'') user = (Inr u1 :: 'e jserror + string) \<and>
        parse t1 = Some blog \<and>
        plus_id (apiURL @ ''blogposts/'') blog = (Inr u2 :: 'e jserror + string) \<and>
        parse t2 = Some post \<and>
        plus_id (apiURL @ ''comments/'') post = (Inr u3 :: 'e jserror + string) \<and>
        parse t3 = Some comments \<and>
        calls st' = [[Val comments]])) \<and>
   (let st' = getCommentsHandleErrs parse net username postTitle record_call (init w) in
     (\<forall>(u, r) \<in> set (issued st'). accepted r) \<and> uncaught st' = None \<longrightarrow>
     (\<exists>t0 user u1 t1 blog u2 t2 post prefix u3 t3 comments.
        issued st' =
          [(apiURL @ ''users/'' @ username, Completed 200 t0),
           (u1, Completed 200 t1),
           (u2 @ ''/'' @ postTitle, Completed 200 t2),
           (u3, Completed 200 t3)] \<and>
        parse t0 = Some user \<and>
        plus_id (apiURL @ ''blogs/'') user = (Inr u1 :: 'e jserror + string) \<and>
        parse t1 = Some blog \<and>
        plus_id (apiURL @ ''blogposts/'') blog = (Inr u2 :: 'e jserror + string) \<and>
        parse t2 = Some post \<and>
        plus_id prefix post = (Inr u3 :: 'e jserror + string) \<and>
        parse t3 = Some comments \<and>
        calls st' = [[Val JNull, Val comments]])) \<and>
   (let run = getCommsPromisified2 parse pnet username postTitle (pinit w) in
     (\<forall>(u, r) \<in> set (requested (snd run)). fulfilled r) \<and>
     fst run \<noteq> Rejected SyntaxError \<and> fst run \<noteq> Rejected TypeError \<longrightarrow>
     (\<exists>t0 user u1 t1 blog u2 t2 post u3 t3 comments.
        requested (snd run) =
          [(apiURL @ ''users/'' @ username, Fulfilled t0),
           (u1, Fulfilled t1),
           (u2 @ ''/'' @ postTitle, Fulfilled t2),
           (u3, Fulfilled t3)] \<and>
        parse t0 = Some user \<and>
        plus_id (apiURL @ ''blogs/'') user = (Inr u1 :: 'e jserror + string) \<and>
        parse t1 = Some blog \<and>
        plus_id (apiURL @ ''blogposts/'') blog = (Inr u2 :: 'e jserror + string) \<and>
        parse t2 = Some post \<and>
        plus_id (apiURL @ ''comments/'') post = (Inr u3 :: 'e jserror + string) \<and>
        parse t3 = Some comments \<and>
        fst run = Fulfilled comments))"
  apply (intro conjI)
  subgoal
    by (simp add: getComments_def request_def evaluate_def record_call_def init_def Let_def
        split: run_splits;
        auto simp: JSON_parse_Inr body_Some)
  subgoal
    by (simp add: getCommentsHandleErrs_def request_def evaluate_def record_call_def
        init_def Let_def split: run_splits;
        auto simp: JSON_parse_Inr)
  subgoal
    by (simp add: getCommsPromisified2_def reqPromise_def promise_then_def
        evaluate_in_then_def returns_def pinit_def Let_def split: run_splits;
        auto simp: JSON_parse_Inr dest: plus_id_throws)
  done

theorem all_steps_succeed_witness:
  "list_all (completed \<circ> snd)
     (issued (getComments demo_parse demo_net ''peter'' ''Promise-Chaining''
        record_call (init 0))) \<and>
   uncaught (getComments demo_parse demo_net ''peter'' ''Promise-Chaining''
        record_call (init 0)) = None \<and>
   length (issued (getComments demo_parse demo_net ''peter'' ''Promise-Chaining''
        record_call (init 0))) = 4 \<and>
   length (calls (getComments demo_parse demo_net ''peter'' ''Promise-Chaining''
        record_call (init 0))) = 1 \<and>
   list_all (accepted \<circ> snd)
     (issued (getCommentsHandleErrs demo_parse demo_net ''peter'' ''Promise-Chaining''
        record_call (init 0))) \<and>
   uncaught (getCommentsHandleErrs demo_parse demo_net ''peter'' ''Promise-Chaining''
        record_call (init 0)) = None \<and>
   length (issued (getCommentsHandleErrs demo_parse demo_net ''peter'' ''Promise-Chaining''
        record_call (init 0))) = 4 \<and>
   length (calls (getCommentsHandleErrs demo_parse demo_net ''peter'' ''Promise-Chaining''
        record_call (init 0))) = 1 \<and>
   list_all (fulfilled \<circ> snd)
     (requested (snd (getCommsPromisified2 demo_parse demo_pnet ''peter'' ''Promise-Chaining''
        (pinit 0)))) \<and>
   fulfilled (fst (getCommsPromisified2 demo_parse demo_pnet ''peter'' ''Promise-Chaining''
        (pinit 0))) \<and>
   length (requested (snd (getCommsPromisified2 demo_parse demo_pnet ''peter''
        ''Promise-Chaining'' (pinit 0)))) = 4"
proof -
  let ?cb = "getComments demo_parse demo_net ''peter'' ''Promise-Chaining'' record_call (init 0)"
  let ?he = "getCommentsHandleErrs demo_parse demo_net ''peter'' ''Promise-Chaining''
    record_call (init 0)"
  let ?pr = "getCommsPromisified2 demo_parse demo_pnet ''peter'' ''Promise-Chaining'' (pinit 0)"
  note inst = all_steps_succeed [of demo_parse demo_net "''peter''" "''Promise-Chaining''" 0 demo_pnet]
  have cb: "(\<forall>(u, r) \<in> set (issued ?cb). completed r) \<and> uncaught ?cb = None"
    by (simp add: getComments_peter)
  have he: "(\<forall>(u, r) \<in> set (issued ?he). accepted r) \<and> uncaught ?he = None"
    by (simp add: getCommentsHandleErrs_peter)
  have pr: "(\<forall>(u, r) \<in> set (requested (snd ?pr)). fulfilled r) \<and>
      fst ?pr \<noteq> Rejected SyntaxError \<and> fst ?pr \<noteq> Rejected TypeError"
    by (simp add: getCommsPromisified2_peter)
  from inst cb have "length (issued ?cb) = 4 \<and> length (calls ?cb) = 1"
    by (auto simp only: Let_def list.size)
  moreover from inst he have "length (issued ?he) = 4 \<and> length (calls ?he) = 1"
    by (auto simp only: Let_def list.size)
  moreover from inst pr have "length (requested (snd ?pr)) = 4 \<and> fulfilled (fst ?pr)"
    by (auto simp only: Let_def list.size fulfilled.simps)
  ultimately show ?thesis using cb he pr
    by (simp add: list_all_iff case_prod_beta)
qed

section \<open>A step that fails\<close>

text \<open>
  C2: in every run of \<open>getCommentsHandleErrs\<close> in which some request comes back with an
  error or with a status other than 200, that request is the last one issued (every
  request before it was accepted), nothing is thrown, and the caller's callback is called
  exactly once, with the failure of that request as its only argument. In every run of
  \<open>getCommsPromisifiedHandleErrs\<close> in which some request is rejected, that request is
  the last one issued and the promise of the chain is rejected with its reason.
\<close>

theorem failed_step_halts_chain:
  "(let st' = getCommentsHandleErrs parse net username postTitle record_call (init w) in
     (\<exists>(u, r) \<in> set (issued st'). \<not> accepted r) \<longrightarrow>
       \<not> accepted (snd (last (issued st'))) \<and>
       (\<forall>(u, r) \<in> set (butlast (issued st')). accepted r) \<and>
       calls st' = [[Err (failure (snd (last (issued st'))))]] \<and>
       uncaught st' = None) \<and>
   (let run = getCommsPromisifiedHandleErrs parse pnet username postTitle (pinit w) in
     (\<exists>(u, r) \<in> set (requested (snd run)). \<not> fulfilled r) \<longrightarrow>
       (\<forall>(u, r) \<in> set (butlast (requested (snd run))). fulfilled r) \<and>
       (\<exists>e. snd (last (requested (snd run))) = Rejected e \<and>
            fst run = Rejected (RequestError e)))"
  apply (intro conjI)
  subgoal
    by (simp add: getCommentsHandleErrs_def request_def evaluate_def record_call_def init_def
        Let_def split: run_splits;
        auto)
  subgoal
    by (simp add: getCommsPromisifiedHandleErrs_def reqPromise_def promise_then_def
        evaluate_in_then_def returns_def pinit_def Let_def split: run_splits;
        auto)
  done

theorem failed_step_halts_chain_witness:
  "\<not> list_all (accepted \<circ> snd)
      (issued (getCommentsHandleErrs demo_parse demo_net ''peter'' ''Not-A-Real-Post''
         record_call (init 0))) \<and>
   calls (getCommentsHandleErrs demo_parse demo_net ''peter'' ''Not-A-Real-Post''
         record_call (init 0)) =
     [[Err (failure (Completed 404 ''Not Found'' :: string response))]] \<and>
   uncaught (getCommentsHandleErrs demo_parse demo_net ''peter'' ''Not-A-Real-Post''
         record_call (init 0)) = None \<and>
   \<not> list_all (fulfilled \<circ> snd)
      (requested (snd (getCommsPromisifiedHandleErrs demo_parse demo_pnet ''peter''
         ''Not-A-Real-Post'' (pinit 0)))) \<and>
   fst (getCommsPromisifiedHandleErrs demo_parse demo_pnet ''peter'' ''Not-A-Real-Post''
         (pinit 0)) = Rejected (RequestError ''StatusCodeError: 404'')"
proof -
  let ?he = "getCommentsHandleErrs demo_parse demo_net ''peter'' ''Not-A-Real-Post''
    record_call (init 0)"
  let ?pr = "getCommsPromisifiedHandleErrs demo_parse demo_pnet ''peter'' ''Not-A-Real-Post''
    (pinit 0)"
  note inst = failed_step_halts_chain
    [of demo_parse demo_net "''peter''" "''Not-A-Real-Post''" 0 demo_pnet]
  have he: "\<exists>(u, r) \<in> set (issued ?he). \<not> accepted r"
    by (simp add: getCommentsHandleErrs_not_a_real_post)
  have pr: "\<exists>(u, r) \<in> set (requested (snd ?pr)). \<not> fulfilled r"
    by (simp add: getCommsPromisifiedHandleErrs_not_a_real_post)
  have last_he: "snd (last (issued ?he)) = Completed 404 ''Not Found''"
    by (simp add: getCommentsHandleErrs_not_a_real_post)
  have last_pr: "snd (last (requested (snd ?pr))) = Rejected ''StatusCodeError: 404''"
    by (simp add: getCommsPromisifiedHandleErrs_not_a_real_post)
  from inst he have "calls ?he = [[Err (failure (snd (last (issued ?he))))]] \<and> uncaught ?he = None"
    by (simp only: Let_def)
  moreover from inst pr have "\<exists>e. snd (last (requested (snd ?pr))) = Rejected e \<and>
      fst ?pr = Rejected (RequestError e)"
    by (simp only: Let_def)
  ultimately show ?thesis using he pr last_he last_pr
    by (auto simp: list_all_iff case_prod_beta)
qed

section \<open>The status code\<close>

lemma decimal_201: "decimal 201 = ''201''"
  by (simp add: decimal.simps)

lemma getComments_status_404:
  "getComments demo_parse (status_net 404) ''peter'' ''Promise-Chaining'' record_call (init 0) =
     \<lparr>world = 4,
      issued =
        [(''http://ctrl-alt-create.net/api/users/peter'', Completed 404 ''{\"id\":7}''),
         (''http://ctrl-alt-create.net/api/blogs/7'', Completed 404 ''{\"id\":42}''),
         (''http://ctrl-alt-create.net/api/blogposts/42/Promise-Chaining'',
          Completed 404 ''{\"id\":99}''),
         (''http://ctrl-alt-create.net/api/comments/99'',
          Completed 404 ''[{\"text\":\"nice\"}]'')],
      calls = [[Val (JArray [JObject [(''text'', JString ''nice'')]])]],
      uncaught = None\<rparr>"
  by (simp add: getComments_def callback_defs status_net_def demo_answer_def demo_parse_def)

lemma getCommsPromisifiedHandleErrs_status_201:
  "getCommsPromisifiedHandleErrs demo_parse (through_library two_hundreds (status_net 201))
      ''peter'' ''Promise-Chaining'' (pinit 0) =
     (Fulfilled (JArray [JObject [(''text'', JString ''nice'')]]),
      \<lparr>pworld = 4,
       requested =
         [(''http://ctrl-alt-create.net/api/users/peter'', Fulfilled ''{\"id\":7}''),
          (''http://ctrl-alt-create.net/api/blogs/7'', Fulfilled ''{\"id\":42}''),
          (''http://ctrl-alt-create.net/api/blogposts/42/Promise-Chaining'',
           Fulfilled ''{\"id\":99}''),
          (''http://ctrl-alt-create.net/api/comments/99'',
           Fulfilled ''[{\"text\":\"nice\"}]'')]\<rparr>)"
  by (simp add: getCommsPromisifiedHandleErrs_def promise_defs through_library_def
      two_hundreds_def status_net_def demo_answer_def demo_parse_def)

lemma getCommsPromisifiedHandleErrs_library_404:
  "getCommsPromisifiedHandleErrs demo_parse (through_library two_hundreds demo_net)
      ''peter'' ''Not-A-Real-Post'' (pinit 0) =
     (Rejected (RequestError (StatusCode 404 ''Not Found'')),
      \<lparr>pworld = 3,
       requested =
         [(''http://ctrl-alt-create.net/api/users/peter'', Fulfilled ''{\"id\":7}''),
          (''http://ctrl-alt-create.net/api/blogs/7'', Fulfilled ''{\"id\":42}''),
          (''http://ctrl-alt-create.net/api/blogposts/42/Not-A-Real-Post'',
           Rejected (StatusCode 404 ''Not Found''))]\<rparr>)"
  by (simp add: getCommsPromisifiedHandleErrs_def promise_defs through_library_def
      two_hundreds_def demo_net_def demo_answer_def demo_parse_def)

lemma status_net_first:
  "status_net s ''http://ctrl-alt-create.net/api/users/peter'' 0 =
     (Completed s ''{\"id\":7}'', 1)"
  by (simp add: status_net_def demo_answer_def)

text \<open>
  C3, as stated: in every execution a response with status 200 is a success and a
  response with any other status is a failure that halts the chain. It is not so in two
  of the chains. \<open>getComments\<close> tests no status: against the server that sends status
  404 with every body, its four requests are issued and the comments are delivered.
  \<open>getCommsPromisifiedHandleErrs\<close> tests no status either, the library does: against
  the server that sends status 201 with every body, the library fulfils the four
  promises, the four requests are issued and the promise of the chain is fulfilled with
  the comments.
\<close>

theorem status_test_counterexample:
  "getComments demo_parse (status_net 404) ''peter'' ''Promise-Chaining'' record_call (init 0) =
     \<lparr>world = 4,
      issued =
        [(''http://ctrl-alt-create.net/api/users/peter'', Completed 404 ''{\"id\":7}''),
         (''http://ctrl-alt-create.net/api/blogs/7'', Completed 404 ''{\"id\":42}''),
         (''http://ctrl-alt-create.net/api/blogposts/42/Promise-Chaining'',
          Completed 404 ''{\"id\":99}''),
         (''http://ctrl-alt-create.net/api/comments/99'',
          Completed 404 ''[{\"text\":\"nice\"}]'')],
      calls = [[Val (JArray [JObject [(''text'', JString ''nice'')]])]],
      uncaught = None\<rparr> \<and>
   status_net 201 ''http://ctrl-alt-create.net/api/users/peter'' 0 =
     (Completed 201 ''{\"id\":7}'', 1) \<and>
   getCommsPromisifiedHandleErrs demo_parse (through_library two_hundreds (status_net 201))
      ''peter'' ''Promise-Chaining'' (pinit 0) =
     (Fulfilled (JArray [JObject [(''text'', JString ''nice'')]]),
      \<lparr>pworld = 4,
       requested =
         [(''http://ctrl-alt-create.net/api/users/peter'', Fulfilled ''{\"id\":7}''),
          (''http://ctrl-alt-create.net/api/blogs/7'', Fulfilled ''{\"id\":42}''),
          (''http://ctrl-alt-create.net/api/blogposts/42/Promise-Chaining'',
           Fulfilled ''{\"id\":99}''),
          (''http://ctrl-alt-create.net/api/comments/99'',
           Fulfilled ''[{\"text\":\"nice\"}]'')]\<rparr>)"
  by (simp add: getComments_status_404 getCommsPromisifiedHandleErrs_status_201
      status_net_first)

text \<open>
  C3, amended. In every run of \<open>getCommentsHandleErrs\<close> a response with status 200 is
  treated as a success: no error is delivered while every request completes with status
  200; when nothing is thrown either, four requests are issued and the parsed body of
  the fourth is delivered; and after a first response with status 200 the request for
  the blog is issued. A response with any other status ends the run, whatever its body:
  it is the last request issued, nothing is thrown, and the callback is called once with
  an \<open>Error\<close> whose message ends in the decimal text of the status code, which the
  message determines. \<open>getCommsPromisifiedHandleErrs\<close> decides nothing on the status:
  it ends, rejected with the error of the library that holds the status code and the
  body, on the responses that the library rejects, and on those alone; after a first
  response that the library fulfils, with status 200 or another, the request for the
  blog is issued. \<open>getComments\<close> never delivers an error, and issues the request for
  the blog after a first response with any status.
\<close>

theorem status_test:
  fixes net :: "string \<Rightarrow> 'w \<Rightarrow> 'e response \<times> 'w"
  shows
  "(let st' = getCommentsHandleErrs parse net username postTitle record_call (init w) in
     ((\<forall>(u, r) \<in> set (issued st'). accepted r) \<longrightarrow>
        (\<forall>args \<in> set (calls st'). \<forall>e. Err e \<notin> set args)) \<and>
     ((\<forall>(u, r) \<in> set (issued st'). accepted r) \<and> uncaught st' = None \<longrightarrow>
        length (issued st') = 4 \<and>
        (\<exists>u text comments.
           last (issued st') = (u, Completed 200 text) \<and> parse text = Some comments \<and>
           calls st' = [[Val JNull, Val comments]])) \<and>
     (\<forall>text w' user u1.
        net (apiURL @ ''users/'' @ username) w = (Completed 200 text, w') \<and>
        parse text = Some user \<and>
        plus_id (apiURL @ ''blogs/'') user = (Inr u1 :: 'e jserror + string) \<longrightarrow>
          take 2 (map fst (issued st')) = [apiURL @ ''users/'' @ username, u1]) \<and>
     (\<forall>u statusCode text.
        (u, Completed statusCode text) \<in> set (issued st') \<and> statusCode \<noteq> 200 \<longrightarrow>
          last (issued st') = (u, Completed statusCode text) \<and>
          calls st' = [[Err (Error (''Failed request: status '' @ decimal statusCode))]] \<and>
          uncaught st' = None)) \<and>
   (\<forall>a b text text'.
      failure (Completed a text :: 'e response) = failure (Completed b text') \<longrightarrow> a = b) \<and>
   (let run = getCommsPromisifiedHandleErrs parse (through_library fulfils net) username
        postTitle (pinit w) in
     (\<forall>statusCode text w'.
        net (apiURL @ ''users/'' @ username) w = (Completed statusCode text, w') \<and>
        \<not> fulfils statusCode \<longrightarrow>
          run =
            (Rejected (RequestError (StatusCode statusCode text)),
             \<lparr>pworld = w',
              requested =
                [(apiURL @ ''users/'' @ username, Rejected (StatusCode statusCode text))]\<rparr>)) \<and>
     (\<forall>statusCode text w' user u1.
        net (apiURL @ ''users/'' @ username) w = (Completed statusCode text, w') \<and>
        fulfils statusCode \<and> parse text = Some user \<and>
        plus_id (apiURL @ ''blogs/'') user = (Inr u1 :: 'e library_error jserror + string) \<longrightarrow>
          take 2 (map fst (requested (snd run))) = [apiURL @ ''users/'' @ username, u1]) \<and>
     (\<forall>u statusCode text.
        (u, Rejected (StatusCode statusCode text)) \<in> set (requested (snd run)) \<longrightarrow>
          \<not> fulfils statusCode \<and>
          last (requested (snd run)) = (u, Rejected (StatusCode statusCode text)) \<and>
          fst run = Rejected (RequestError (StatusCode statusCode text))) \<and>
     (\<forall>err. fst run = Rejected (RequestError err) \<longrightarrow>
        snd (last (requested (snd run))) = Rejected err)) \<and>
   (let st' = getComments parse net username postTitle record_call (init w) in
     (\<forall>args \<in> set (calls st'). \<forall>e. Err e \<notin> set args) \<and>
     (\<forall>statusCode text w' user u1.
        net (apiURL @ ''users/'' @ username) w = (Completed statusCode text, w') \<and>
        parse text = Some user \<and>
        plus_id (apiURL @ ''blogs/'') user = (Inr u1 :: 'e jserror + string) \<longrightarrow>
          take 2 (map fst (issued st')) = [apiURL @ ''users/'' @ username, u1]))"
  unfolding Let_def
  apply (intro conjI)
  subgoal
    by (simp add: getCommentsHandleErrs_def request_def evaluate_def record_call_def
        init_def split: run_splits;
        auto)
  subgoal
    by (simp add: getCommentsHandleErrs_def request_def evaluate_def record_call_def
        init_def split: run_splits;
        auto)
  subgoal
    by (simp add: getCommentsHandleErrs_def request_def evaluate_def record_call_def
        init_def split: run_splits;
        auto)
  subgoal
    by (simp add: getCommentsHandleErrs_def request_def evaluate_def record_call_def
        init_def split: run_splits;
        auto)
  subgoal
    by (auto dest: decimal_inj)
  subgoal
    by (simp add: getCommsPromisifiedHandleErrs_def reqPromise_def promise_then_def
        evaluate_in_then_def returns_def pinit_def through_library_def
        split: run_splits;
        auto dest: plus_id_throws)
  subgoal
    by (simp add: getCommsPromisifiedHandleErrs_def reqPromise_def promise_then_def
        evaluate_in_then_def returns_def pinit_def through_library_def
        split: run_splits;
        auto dest: plus_id_throws)
  subgoal
    by (simp add: getCommsPromisifiedHandleErrs_def reqPromise_def promise_then_def
        evaluate_in_then_def returns_def pinit_def through_library_def
        split: run_splits;
        auto dest: plus_id_throws)
  subgoal
    by (simp add: getCommsPromisifiedHandleErrs_def reqPromise_def promise_then_def
        evaluate_in_then_def returns_def pinit_def through_library_def
        split: run_splits;
        auto dest: plus_id_throws)
  subgoal
    by (simp add: getComments_def request_def evaluate_def record_call_def init_def
        split: run_splits;
        auto simp: JSON_parse_Inr body_Some)
  subgoal
    by (simp add: getComments_def request_def evaluate_def record_call_def init_def
        split: run_splits;
        auto simp: JSON_parse_Inr body_Some)
  done

theorem status_test_witness:
  "list_all (accepted \<circ> snd)
     (issued (getCommentsHandleErrs demo_parse demo_net ''peter'' ''Promise-Chaining''
        record_call (init 0))) \<and>
   uncaught (getCommentsHandleErrs demo_parse demo_net ''peter'' ''Promise-Chaining''
        record_call (init 0)) = None \<and>
   length (issued (getCommentsHandleErrs demo_parse demo_net ''peter'' ''Promise-Chaining''
        record_call (init 0))) = 4 \<and>
   calls (getCommentsHandleErrs demo_parse demo_net ''peter'' ''Promise-Chaining''
        record_call (init 0)) =
     [[Val JNull, Val (JArray [JObject [(''text'', JString ''nice'')]])]] \<and>
   (''http://ctrl-alt-create.net/api/blogposts/42/Not-A-Real-Post'',
    Completed 404 ''Not Found'') \<in>
     set (issued (getCommentsHandleErrs demo_parse demo_net ''peter'' ''Not-A-Real-Post''
        record_call (init 0))) \<and>
   calls (getCommentsHandleErrs demo_parse demo_net ''peter'' ''Not-A-Real-Post''
        record_call (init 0)) = [[Err (Error ''Failed request: status 404'')]] \<and>
   failure (Completed 404 ''Not Found'' :: string response) \<noteq>
     failure (Completed 500 ''Not Found'') \<and>
   demo_net (apiURL @ ''users/'' @ ''nobody'') 0 = (Completed 404 ''Not Found'', 1) \<and>
   \<not> two_hundreds 404 \<and>
   fst (getCommsPromisifiedHandleErrs demo_parse (through_library two_hundreds demo_net)
        ''nobody'' ''Promise-Chaining'' (pinit 0)) =
     Rejected (RequestError (StatusCode 404 ''Not Found'')) \<and>
   status_net 201 (apiURL @ ''users/'' @ ''peter'') 0 = (Completed 201 ''{\"id\":7}'', 1) \<and>
   two_hundreds 201 \<and>
   take 2 (map fst (requested (snd (getCommsPromisifiedHandleErrs demo_parse
        (through_library two_hundreds (status_net 201)) ''peter'' ''Promise-Chaining''
        (pinit 0))))) =
     [apiURL @ ''users/'' @ ''peter'', ''http://ctrl-alt-create.net/api/blogs/7''] \<and>
   (''http://ctrl-alt-create.net/api/blogposts/42/Not-A-Real-Post'',
    Rejected (StatusCode 404 ''Not Found'')) \<in>
     set (requested (snd (getCommsPromisifiedHandleErrs demo_parse
        (through_library two_hundreds demo_net) ''peter'' ''Not-A-Real-Post'' (pinit 0)))) \<and>
   fst (getCommsPromisifiedHandleErrs demo_parse (through_library two_hundreds demo_net)
        ''peter'' ''Not-A-Real-Post'' (pinit 0)) =
     Rejected (RequestError (StatusCode 404 ''Not Found'')) \<and>
   status_net 404 (apiURL @ ''users/'' @ ''peter'') 0 = (Completed 404 ''{\"id\":7}'', 1) \<and>
   take 2 (map fst (issued (getComments demo_parse (status_net 404) ''peter''
        ''Promise-Chaining'' record_call (init 0)))) =
     [apiURL @ ''users/'' @ ''peter'', ''http://ctrl-alt-create.net/api/blogs/7'']"
proof -
  let ?ok = "getCommentsHandleErrs demo_parse demo_net ''peter'' ''Promise-Chaining''
    record_call (init 0)"
  let ?bad = "getCommentsHandleErrs demo_parse demo_net ''peter'' ''Not-A-Real-Post''
    record_call (init 0)"
  let ?lib404 = "getCommsPromisifiedHandleErrs demo_parse (through_library two_hundreds demo_net)
    ''peter'' ''Not-A-Real-Post'' (pinit 0)"
  let ?user = "JObject [(''id'', JNumber ''7'')]"
  note peter = status_test
    [where parse = demo_parse and net = demo_net and username = "''peter''"
       and postTitle = "''Promise-Chaining''" and w = 0 and fulfils = two_hundreds,
       unfolded Let_def]
  note post = status_test
    [where parse = demo_parse and net = demo_net and username = "''peter''"
       and postTitle = "''Not-A-Real-Post''" and w = 0 and fulfils = two_hundreds,
       unfolded Let_def]
  note nobody = status_test
    [where parse = demo_parse and net = demo_net and username = "''nobody''"
       and postTitle = "''Promise-Chaining''" and w = 0 and fulfils = two_hundreds,
       unfolded Let_def]
  note created = status_test
    [where parse = demo_parse and net = "status_net 201" and username = "''peter''"
       and postTitle = "''Promise-Chaining''" and w = 0 and fulfils = two_hundreds,
       unfolded Let_def]
  note missing = status_test
    [where parse = demo_parse and net = "status_net 404" and username = "''peter''"
       and postTitle = "''Promise-Chaining''" and w = 0 and fulfils = two_hundreds,
       unfolded Let_def]
  have all_200: "(\<forall>(u, r) \<in> set (issued ?ok). accepted r) \<and> uncaught ?ok = None"
    by (simp add: getCommentsHandleErrs_peter)
  have is_404: "(''http://ctrl-alt-create.net/api/blogposts/42/Not-A-Real-Post'',
      Completed 404 ''Not Found'') \<in> set (issued ?bad) \<and> (404 :: nat) \<noteq> 200"
    by (simp add: getCommentsHandleErrs_not_a_real_post)
  have first_404: "demo_net (apiURL @ ''users/'' @ ''nobody'') 0 =
      (Completed 404 ''Not Found'', 1) \<and> \<not> two_hundreds 404"
    by (simp add: demo_net_def demo_answer_def apiURL_def two_hundreds_def)
  have user: "demo_parse ''{\"id\":7}'' = Some ?user"
    by (simp add: demo_parse_def)
  have blogs: "plus_id (apiURL @ ''blogs/'') ?user = Inr ''http://ctrl-alt-create.net/api/blogs/7''"
    by (simp add: plus_id_def plus_def apiURL_def)
  have first_201: "status_net 201 (apiURL @ ''users/'' @ ''peter'') 0 =
      (Completed 201 ''{\"id\":7}'', 1) \<and> two_hundreds 201"
    by (simp add: status_net_def demo_answer_def apiURL_def two_hundreds_def)
  have first_missing: "status_net 404 (apiURL @ ''users/'' @ ''peter'') 0 =
      (Completed 404 ''{\"id\":7}'', 1)"
    by (simp add: status_net_def demo_answer_def apiURL_def)
  have rejected: "(''http://ctrl-alt-create.net/api/blogposts/42/Not-A-Real-Post'',
      Rejected (StatusCode 404 ''Not Found'')) \<in> set (requested (snd ?lib404))"
    by (simp add: getCommsPromisifiedHandleErrs_library_404)
  from peter [THEN conjunct1, THEN conjunct2, THEN conjunct1, rule_format, OF all_200]
  have four: "length (issued ?ok) = 4"
    by simp
  from peter [THEN conjunct1, THEN conjunct1, rule_format] all_200
  have no_error: "\<forall>args \<in> set (calls ?ok). \<forall>e. Err e \<notin> set args"
    by blast
  from post [THEN conjunct1, THEN conjunct2, THEN conjunct2, THEN conjunct2, rule_format,
      OF is_404]
  have halted: "calls ?bad = [[Err (Error (''Failed request: status '' @ decimal 404))]]"
    by simp
  from post [THEN conjunct2, THEN conjunct1, rule_format,
      of 404 "''Not Found''" 500 "''Not Found''"]
  have code: "failure (Completed 404 ''Not Found'' :: string response) \<noteq>
      failure (Completed 500 ''Not Found'')"
    by auto
  from nobody [THEN conjunct2, THEN conjunct2, THEN conjunct1, THEN conjunct1, rule_format,
      OF first_404]
  have lib_first: "fst (getCommsPromisifiedHandleErrs demo_parse
      (through_library two_hundreds demo_net) ''nobody'' ''Promise-Chaining'' (pinit 0)) =
      Rejected (RequestError (StatusCode 404 ''Not Found''))"
    by simp
  from created [THEN conjunct2, THEN conjunct2, THEN conjunct1, THEN conjunct2,
      THEN conjunct1, rule_format, of 201 "''{\"id\":7}''" 1 ?user
      "''http://ctrl-alt-create.net/api/blogs/7''"] first_201 user blogs
  have lib_goes_on: "take 2 (map fst (requested (snd (getCommsPromisifiedHandleErrs demo_parse
      (through_library two_hundreds (status_net 201)) ''peter'' ''Promise-Chaining''
      (pinit 0))))) =
      [apiURL @ ''users/'' @ ''peter'', ''http://ctrl-alt-create.net/api/blogs/7'']"
    by simp
  from post [THEN conjunct2, THEN conjunct2, THEN conjunct1, THEN conjunct2,
      THEN conjunct2, THEN conjunct1, rule_format, OF rejected]
  have lib_halts: "fst ?lib404 = Rejected (RequestError (StatusCode 404 ''Not Found''))"
    by simp
  from missing [THEN conjunct2, THEN conjunct2, THEN conjunct2, THEN conjunct2,
      rule_format, of 404 "''{\"id\":7}''" 1 ?user
      "''http://ctrl-alt-create.net/api/blogs/7''"] first_missing user blogs
  have cb_goes_on: "take 2 (map fst (issued (getComments demo_parse (status_net 404) ''peter''
      ''Promise-Chaining'' record_call (init 0)))) =
      [apiURL @ ''users/'' @ ''peter'', ''http://ctrl-alt-create.net/api/blogs/7'']"
    by simp
  from all_200 have ok_list: "list_all (accepted \<circ> snd) (issued ?ok)"
    by (simp add: list_all_iff case_prod_beta)
  show ?thesis
    using ok_list all_200 four no_error is_404 halted code first_404 lib_first first_201
      lib_goes_on rejected lib_halts first_missing cb_goes_on
    by (simp add: decimal_404 getCommentsHandleErrs_peter)
qed

section \<open>A body that is not JSON\<close>

text \<open>
  C4, as stated: a response with status 200 and a body that cannot be decoded gives a
  failure, not a crash. It does not, in the callback chains: against the server that
  answers with a page of HTML, \<open>JSON.parse\<close> throws inside the callback of \<open>request\<close>,
  nothing catches the SyntaxError, and the caller's callback is never called.
\<close>

theorem undecodable_body_counterexample:
  "demo_parse ''<html></html>'' = None \<and>
   getCommentsHandleErrs demo_parse html_net ''peter'' ''Promise-Chaining'' record_call (init 0) =
     \<lparr>world = 1,
      issued = [(''http://ctrl-alt-create.net/api/users/peter'', Completed 200 ''<html></html>'')],
      calls = [],
      uncaught = Some SyntaxError\<rparr> \<and>
   getComments demo_parse html_net ''peter'' ''Promise-Chaining'' record_call (init 0) =
     \<lparr>world = 1,
      issued = [(''http://ctrl-alt-create.net/api/users/peter'', Completed 200 ''<html></html>'')],
      calls = [],
      uncaught = Some SyntaxError\<rparr>"
  by (simp add: getCommentsHandleErrs_html getComments_html demo_parse_def)

text \<open>
  C4, amended: a response (with status 200, for \<open>getCommentsHandleErrs\<close>) whose body is
  not JSON is the last request of the run. In the callback chains the SyntaxError of
  \<open>JSON.parse\<close> leaves the callback of \<open>request\<close> uncaught and the caller's callback is
  never called; in the promise chain the promise is rejected with the SyntaxError. A body
  that is JSON is never refused for its shape: whatever value the body of the fourth
  response denotes is delivered as the result.
\<close>

theorem undecodable_body:
  "(let st' = getCommentsHandleErrs parse net username postTitle record_call (init w) in
     \<forall>u text. (u, Completed 200 text) \<in> set (issued st') \<and> parse text = None \<longrightarrow>
       last (issued st') = (u, Completed 200 text) \<and>
       calls st' = [] \<and> uncaught st' = Some SyntaxError) \<and>
   (let st' = getComments parse net username postTitle record_call (init w) in
     \<forall>u statusCode text.
       (u, Completed statusCode text) \<in> set (issued st') \<and> parse text = None \<longrightarrow>
         last (issued st') = (u, Completed statusCode text) \<and>
         calls st' = [] \<and> uncaught st' = Some SyntaxError) \<and>
   (let run = getCommsPromisifiedHandleErrs parse pnet username postTitle (pinit w) in
     \<forall>u text. (u, Fulfilled text) \<in> set (requested (snd run)) \<and> parse text = None \<longrightarrow>
       last (requested (snd run)) = (u, Fulfilled text) \<and>
       fst run = Rejected SyntaxError) \<and>
   (let st' = getCommentsHandleErrs parse net username postTitle record_call (init w) in
     \<forall>u text v.
       length (issued st') = 4 \<and> last (issued st') = (u, Completed 200 text) \<and>
       parse text = Some v \<longrightarrow>
         calls st' = [[Val JNull, Val v]] \<and> uncaught st' = None)"
  apply (intro conjI)
  subgoal
    by (simp add: getCommentsHandleErrs_def request_def evaluate_def record_call_def
        init_def Let_def split: run_splits;
        auto)
  subgoal
    by (simp add: getComments_def request_def evaluate_def record_call_def init_def Let_def
        split: run_splits;
        auto simp: JSON_parse_Inr JSON_parse_Inl)
  subgoal
    by (simp add: getCommsPromisifiedHandleErrs_def reqPromise_def promise_then_def
        evaluate_in_then_def returns_def pinit_def Let_def split: run_splits;
        auto)
  subgoal
    by (simp add: getCommentsHandleErrs_def request_def evaluate_def record_call_def
        init_def Let_def split: run_splits;
        auto)
  done

theorem undecodable_body_witness:
  "demo_parse ''<html></html>'' = None \<and>
   (''http://ctrl-alt-create.net/api/users/peter'', Completed 200 ''<html></html>'') \<in>
     set (issued (getCommentsHandleErrs demo_parse html_net ''peter'' ''Promise-Chaining''
        record_call (init 0))) \<and>
   uncaught (getCommentsHandleErrs demo_parse html_net ''peter'' ''Promise-Chaining''
        record_call (init 0)) = Some SyntaxError \<and>
   (''http://ctrl-alt-create.net/api/users/peter'', Completed 200 ''<html></html>'') \<in>
     set (issued (getComments demo_parse html_net ''peter'' ''Promise-Chaining''
        record_call (init 0))) \<and>
   uncaught (getComments demo_parse html_net ''peter'' ''Promise-Chaining''
        record_call (init 0)) = Some SyntaxError \<and>
   (''http://ctrl-alt-create.net/api/users/peter'', Fulfilled ''<html></html>'') \<in>
     set (requested (snd (getCommsPromisifiedHandleErrs demo_parse html_pnet ''peter''
        ''Promise-Chaining'' (pinit 0)))) \<and>
   fst (getCommsPromisifiedHandleErrs demo_parse html_pnet ''peter'' ''Promise-Chaining''
        (pinit 0)) = Rejected SyntaxError \<and>
   length (issued (getCommentsHandleErrs demo_parse demo_net ''peter'' ''Promise-Chaining''
        record_call (init 0))) = 4 \<and>
   last (issued (getCommentsHandleErrs demo_parse demo_net ''peter'' ''Promise-Chaining''
        record_call (init 0))) =
     (''http://ctrl-alt-create.net/api//comments/99'', Completed 200 ''[{\"text\":\"nice\"}]'') \<and>
   demo_parse ''[{\"text\":\"nice\"}]'' =
     Some (JArray [JObject [(''text'', JString ''nice'')]]) \<and>
   calls (getCommentsHandleErrs demo_parse demo_net ''peter'' ''Promise-Chaining''
        record_call (init 0)) =
     [[Val JNull, Val (JArray [JObject [(''text'', JString ''nice'')]])]]"
proof -
  let ?he = "getCommentsHandleErrs demo_parse html_net ''peter'' ''Promise-Chaining''
    record_call (init 0)"
  let ?cb = "getComments demo_parse html_net ''peter'' ''Promise-Chaining'' record_call (init 0)"
  let ?pr = "getCommsPromisifiedHandleErrs demo_parse html_pnet ''peter'' ''Promise-Chaining''
    (pinit 0)"
  let ?u = "''http://ctrl-alt-create.net/api/users/peter''"
  note inst = undecodable_body
    [where parse = demo_parse and net = html_net and username = "''peter''"
       and postTitle = "''Promise-Chaining''" and w = 0 and pnet = html_pnet]
  have not_json: "demo_parse ''<html></html>'' = None"
    by (simp add: demo_parse_def)
  have he: "(?u, Completed 200 ''<html></html>'') \<in> set (issued ?he)"
    by (simp add: getCommentsHandleErrs_html)
  have cb: "(?u, Completed 200 ''<html></html>'') \<in> set (issued ?cb)"
    by (simp add: getComments_html)
  have pr: "(?u, Fulfilled ''<html></html>'') \<in> set (requested (snd ?pr))"
    by (simp add: getCommsPromisifiedHandleErrs_html)
  let ?ok = "getCommentsHandleErrs demo_parse demo_net ''peter'' ''Promise-Chaining''
    record_call (init 0)"
  let ?comments = "JArray [JObject [(''text'', JString ''nice'')]]"
  note ok = undecodable_body
    [where parse = demo_parse and net = demo_net and username = "''peter''"
       and postTitle = "''Promise-Chaining''" and w = 0 and pnet = demo_pnet]
  have four: "length (issued ?ok) = 4 \<and>
      last (issued ?ok) =
        (''http://ctrl-alt-create.net/api//comments/99'', Completed 200 ''[{\"text\":\"nice\"}]'') \<and>
      demo_parse ''[{\"text\":\"nice\"}]'' = Some ?comments"
    by (simp add: getCommentsHandleErrs_peter demo_parse_def)
  from inst he not_json have "uncaught ?he = Some SyntaxError"
    unfolding Let_def by blast
  moreover from inst cb not_json have "uncaught ?cb = Some SyntaxError"
    unfolding Let_def by blast
  moreover from inst pr not_json have "fst ?pr = Rejected SyntaxError"
    unfolding Let_def by blast
  moreover from ok four have "calls ?ok = [[Val JNull, Val ?comments]]"
    unfolding Let_def by blast
  ultimately show ?thesis using not_json he cb pr four
    by simp
qed

section \<open>The failure that reaches the caller\<close>

text \<open>
  C5, as stated: the failure delivered to the caller carries the index of the step that
  failed. It does not: the run for user paul fails at the second request (index 1), the
  run for user nobody at the first (index 0), both with status 404, and the caller's
  callback receives the same value in both, an \<open>Error\<close> with the message
  \<open>Failed request: status 404\<close>.
\<close>

theorem failure_delivered_unchanged_counterexample:
  "length (issued (getCommentsHandleErrs demo_parse demo_net ''paul'' ''Not-A-Real-Post''
      record_call (init 0))) = 2 \<and>
   snd (last (issued (getCommentsHandleErrs demo_parse demo_net ''paul'' ''Not-A-Real-Post''
      record_call (init 0)))) = Completed 404 ''Not Found'' \<and>
   length (issued (getCommentsHandleErrs demo_parse demo_net ''nobody'' ''Promise-Chaining''
      record_call (init 0))) = 1 \<and>
   snd (last (issued (getCommentsHandleErrs demo_parse demo_net ''nobody'' ''Promise-Chaining''
      record_call (init 0)))) = Completed 404 ''Not Found'' \<and>
   calls (getCommentsHandleErrs demo_parse demo_net ''paul'' ''Not-A-Real-Post''
      record_call (init 0)) = [[Err (Error ''Failed request: status 404'')]] \<and>
   calls (getCommentsHandleErrs demo_parse demo_net ''nobody'' ''Promise-Chaining''
      record_call (init 0)) = [[Err (Error ''Failed request: status 404'')]]"
  by (simp add: getCommentsHandleErrs_paul getCommentsHandleErrs_nobody)

text \<open>
  C5, amended: the failure delivered to the caller is the cause alone, with no index of
  the step. In every run of \<open>getCommentsHandleErrs\<close>, a request that comes back with
  an error makes the one call of the caller's callback carry that error, unchanged, and a
  request that comes back with a status other than 200 makes it carry a new \<open>Error\<close>
  whose message names the status. In every run of \<open>getCommsPromisifiedHandleErrs\<close>, the
  reason of a rejected request is the reason with which the promise of the chain is
  rejected: no later \<open>then\<close> handles it.
\<close>

theorem failure_delivered_unchanged:
  "(let st' = getCommentsHandleErrs parse net username postTitle record_call (init w) in
     (\<forall>u err. (u, Failed err) \<in> set (issued st') \<longrightarrow>
        calls st' = [[Err (RequestError err)]]) \<and>
     (\<forall>u statusCode text.
        (u, Completed statusCode text) \<in> set (issued st') \<and> statusCode \<noteq> 200 \<longrightarrow>
        calls st' = [[Err (Error (''Failed request: status '' @ decimal statusCode))]])) \<and>
   (let run = getCommsPromisifiedHandleErrs parse pnet username postTitle (pinit w) in
     \<forall>u err. (u, Rejected err) \<in> set (requested (snd run)) \<longrightarrow>
       fst run = Rejected (RequestError err))"
  apply (intro conjI)
  subgoal
    by (simp add: getCommentsHandleErrs_def request_def evaluate_def record_call_def
        init_def Let_def split: run_splits;
        auto)
  subgoal
    by (simp add: getCommsPromisifiedHandleErrs_def reqPromise_def promise_then_def
        evaluate_in_then_def returns_def pinit_def Let_def split: run_splits;
        auto)
  done

theorem failure_delivered_unchanged_witness:
  "(''http://ctrl-alt-create.net/api/users/peter'', Failed ''ECONNREFUSED'') \<in>
     set (issued (getCommentsHandleErrs demo_parse down_net ''peter'' ''Promise-Chaining''
        record_call (init 0))) \<and>
   calls (getCommentsHandleErrs demo_parse down_net ''peter'' ''Promise-Chaining''
        record_call (init 0)) = [[Err (RequestError ''ECONNREFUSED'')]] \<and>
   (''http://ctrl-alt-create.net/api/blogs/8'', Completed 404 ''Not Found'') \<in>
     set (issued (getCommentsHandleErrs demo_parse demo_net ''paul'' ''Not-A-Real-Post''
        record_call (init 0))) \<and>
   calls (getCommentsHandleErrs demo_parse demo_net ''paul'' ''Not-A-Real-Post''
        record_call (init 0)) = [[Err (Error ''Failed request: status 404'')]] \<and>
   (''http://ctrl-alt-create.net/api/blogposts/42/Not-A-Real-Post'',
    Rejected ''StatusCodeError: 404'') \<in>
     set (requested (snd (getCommsPromisifiedHandleErrs demo_parse demo_pnet ''peter''
        ''Not-A-Real-Post'' (pinit 0)))) \<and>
   fst (getCommsPromisifiedHandleErrs demo_parse demo_pnet ''peter'' ''Not-A-Real-Post''
        (pinit 0)) = Rejected (RequestError ''StatusCodeError: 404'')"
proof -
  let ?down = "getCommentsHandleErrs demo_parse down_net ''peter'' ''Promise-Chaining''
    record_call (init 0)"
  let ?paul = "getCommentsHandleErrs demo_parse demo_net ''paul'' ''Not-A-Real-Post''
    record_call (init 0)"
  let ?pr = "getCommsPromisifiedHandleErrs demo_parse demo_pnet ''peter'' ''Not-A-Real-Post''
    (pinit 0)"
  note down = failure_delivered_unchanged
    [where parse = demo_parse and net = down_net and username = "''peter''"
       and postTitle = "''Promise-Chaining''" and w = 0 and pnet = demo_pnet]
  note paul = failure_delivered_unchanged
    [where parse = demo_parse and net = demo_net and username = "''paul''"
       and postTitle = "''Not-A-Real-Post''" and w = 0 and pnet = demo_pnet]
  note peter = failure_delivered_unchanged
    [where parse = demo_parse and net = demo_net and username = "''peter''"
       and postTitle = "''Not-A-Real-Post''" and w = 0 and pnet = demo_pnet]
  have d: "(''http://ctrl-alt-create.net/api/users/peter'', Failed ''ECONNREFUSED'') \<in>
      set (issued ?down)"
    by (simp add: getCommentsHandleErrs_down)
  have p: "(''http://ctrl-alt-create.net/api/blogs/8'', Completed 404 ''Not Found'') \<in>
      set (issued ?paul) \<and> (404 :: nat) \<noteq> 200"
    by (simp add: getCommentsHandleErrs_paul)
  have r: "(''http://ctrl-alt-create.net/api/blogposts/42/Not-A-Real-Post'',
      Rejected ''StatusCodeError: 404'') \<in> set (requested (snd ?pr))"
    by (simp add: getCommsPromisifiedHandleErrs_not_a_real_post)
  from down d have "calls ?down = [[Err (RequestError ''ECONNREFUSED'')]]"
    unfolding Let_def by blast
  moreover from paul p
  have "calls ?paul = [[Err (Error (''Failed request: status '' @ decimal 404))]]"
    unfolding Let_def by blast
  moreover from peter r have "fst ?pr = Rejected (RequestError ''StatusCodeError: 404'')"
    unfolding Let_def by blast
  ultimately show ?thesis using d p r
    by (simp add: decimal_404)
qed

section \<open>Failures that are not delivered\<close>

text \<open>
  C6, as stated: no outcome of a request makes a chain throw; the failure always reaches
  the caller as a value. It does not, in \<open>getComments\<close>: when the network is down,
  \<open>request\<close> reports an error, \<open>body\<close> is undefined, \<open>JSON.parse\<close> throws a SyntaxError
  that nothing catches, and the caller's callback is never called.
\<close>

theorem failures_as_values_counterexample:
  "getComments demo_parse down_net ''peter'' ''Promise-Chaining'' record_call (init 0) =
     \<lparr>world = 1,
      issued = [(''http://ctrl-alt-create.net/api/users/peter'', Failed ''ECONNREFUSED'')],
      calls = [],
      uncaught = Some SyntaxError\<rparr>"
  by (simp add: getComments_down)

text \<open>
  C6, amended. In \<open>getCommentsHandleErrs\<close> a request that comes back with an error or
  with a status other than 200 is never fatal: nothing is thrown and the caller's
  callback is called once, with the error; an exception leaves a callback of \<open>request\<close>
  only while the body of an accepted response is decoded, and then the caller's callback
  is not called; a body that is not JSON makes it so. In \<open>getComments\<close> every request
  that comes back with an error, and every body that is not JSON, leaves a SyntaxError
  uncaught, and the caller's callback is not called. In \<open>getCommsPromisified\<close> every
  failure is the reason of the rejected promise: the promise is fulfilled only after
  four fulfilled requests, and it is rejected with the reason of the last request when
  that one was rejected, with a SyntaxError or a TypeError when a callback of \<open>then\<close>
  threw on the body of the last request; a rejected request rejects the promise with its
  reason, and a body that is not JSON rejects it with a SyntaxError.
\<close>

theorem failures_as_values:
  "(let st' = getCommentsHandleErrs parse net username postTitle record_call (init w) in
     (\<not> accepted (snd (last (issued st'))) \<longrightarrow>
        uncaught st' = None \<and> length (calls st') = 1 \<and>
        calls st' = [[Err (failure (snd (last (issued st'))))]]) \<and>
     (uncaught st' \<noteq> None \<longrightarrow> accepted (snd (last (issued st'))) \<and> calls st' = []) \<and>
     (\<forall>u text. (u, Completed 200 text) \<in> set (issued st') \<and> parse text = None \<longrightarrow>
        uncaught st' = Some SyntaxError \<and> calls st' = [])) \<and>
   (let st' = getComments parse net username postTitle record_call (init w) in
     (\<forall>u err. (u, Failed err) \<in> set (issued st') \<longrightarrow>
        uncaught st' = Some SyntaxError \<and> calls st' = []) \<and>
     (\<forall>u statusCode text.
        (u, Completed statusCode text) \<in> set (issued st') \<and> parse text = None \<longrightarrow>
          uncaught st' = Some SyntaxError \<and> calls st' = [])) \<and>
   (let run = getCommsPromisified parse pnet username postTitle (pinit w) in
     (case fst run of
        Fulfilled comments \<Rightarrow>
          list_all (fulfilled \<circ> snd) (requested (snd run)) \<and>
          length (requested (snd run)) = 4
      | Rejected reason \<Rightarrow>
          (case snd (last (requested (snd run))) of
             Rejected err \<Rightarrow> reason = RequestError err
           | Fulfilled text \<Rightarrow> reason = SyntaxError \<or> reason = TypeError)) \<and>
     (\<forall>u err. (u, Rejected err) \<in> set (requested (snd run)) \<longrightarrow>
        fst run = Rejected (RequestError err)) \<and>
     (\<forall>u text. (u, Fulfilled text) \<in> set (requested (snd run)) \<and> parse text = None \<longrightarrow>
        fst run = Rejected SyntaxError))"
  unfolding Let_def
  apply (intro conjI)
  subgoal
    by (simp add: getCommentsHandleErrs_def request_def evaluate_def record_call_def
        init_def split: run_splits;
        auto)
  subgoal
    by (simp add: getCommentsHandleErrs_def request_def evaluate_def record_call_def
        init_def split: run_splits;
        auto)
  subgoal
    by (simp add: getCommentsHandleErrs_def request_def evaluate_def record_call_def
        init_def split: run_splits;
        auto)
  subgoal
    by (simp add: getComments_def request_def evaluate_def record_call_def init_def
        split: run_splits;
        auto simp: JSON_parse_Inr JSON_parse_Inl)
  subgoal
    by (simp add: getComments_def request_def evaluate_def record_call_def init_def
        split: run_splits;
        auto simp: JSON_parse_Inr JSON_parse_Inl)
  subgoal
    by (simp add: getCommsPromisified_def reqPromise_def promise_then_def
        evaluate_in_then_def returns_def pinit_def split: run_splits;
        auto simp: JSON_parse_Inl dest: plus_id_throws)
  subgoal
    by (simp add: getCommsPromisified_def reqPromise_def promise_then_def
        evaluate_in_then_def returns_def pinit_def split: run_splits;
        auto)
  subgoal
    by (simp add: getCommsPromisified_def reqPromise_def promise_then_def
        evaluate_in_then_def returns_def pinit_def split: run_splits;
        auto)
  done

theorem failures_as_values_witness:
  "\<not> accepted (snd (last (issued (getCommentsHandleErrs demo_parse down_net ''peter''
      ''Promise-Chaining'' record_call (init 0))))) \<and>
   uncaught (getCommentsHandleErrs demo_parse down_net ''peter'' ''Promise-Chaining''
      record_call (init 0)) = None \<and>
   length (calls (getCommentsHandleErrs demo_parse down_net ''peter'' ''Promise-Chaining''
      record_call (init 0))) = 1 \<and>
   calls (getCommentsHandleErrs demo_parse down_net ''peter'' ''Promise-Chaining''
      record_call (init 0)) = [[Err (RequestError ''ECONNREFUSED'')]] \<and>
   uncaught (getCommentsHandleErrs demo_parse html_net ''peter'' ''Promise-Chaining''
      record_call (init 0)) \<noteq> None \<and>
   calls (getCommentsHandleErrs demo_parse html_net ''peter'' ''Promise-Chaining''
      record_call (init 0)) = [] \<and>
   (''http://ctrl-alt-create.net/api/users/peter'', Failed ''ECONNREFUSED'') \<in>
     set (issued (getComments demo_parse down_net ''peter'' ''Promise-Chaining''
       record_call (init 0))) \<and>
   uncaught (getComments demo_parse down_net ''peter'' ''Promise-Chaining''
      record_call (init 0)) = Some SyntaxError \<and>
   (''http://ctrl-alt-create.net/api/users/peter'', Rejected ''ECONNREFUSED'') \<in>
     set (requested (snd (getCommsPromisified demo_parse down_pnet ''peter''
       ''Promise-Chaining'' (pinit 0)))) \<and>
   fst (getCommsPromisified demo_parse down_pnet ''peter'' ''Promise-Chaining'' (pinit 0)) =
     Rejected (RequestError ''ECONNREFUSED'') \<and>
   demo_parse ''<html></html>'' = None \<and>
   (''http://ctrl-alt-create.net/api/users/peter'', Fulfilled ''<html></html>'') \<in>
     set (requested (snd (getCommsPromisified demo_parse html_pnet ''peter''
       ''Promise-Chaining'' (pinit 0)))) \<and>
   fst (getCommsPromisified demo_parse html_pnet ''peter'' ''Promise-Chaining'' (pinit 0)) =
     Rejected SyntaxError"
proof -
  let ?down = "getCommentsHandleErrs demo_parse down_net ''peter'' ''Promise-Chaining''
    record_call (init 0)"
  let ?html = "getCommentsHandleErrs demo_parse html_net ''peter'' ''Promise-Chaining''
    record_call (init 0)"
  let ?cb = "getComments demo_parse down_net ''peter'' ''Promise-Chaining'' record_call (init 0)"
  let ?pdown = "getCommsPromisified demo_parse down_pnet ''peter'' ''Promise-Chaining''
    (pinit 0)"
  let ?phtml = "getCommsPromisified demo_parse html_pnet ''peter'' ''Promise-Chaining''
    (pinit 0)"
  let ?u = "''http://ctrl-alt-create.net/api/users/peter''"
  note down = failures_as_values
    [where parse = demo_parse and net = down_net and username = "''peter''"
       and postTitle = "''Promise-Chaining''" and w = 0 and pnet = down_pnet,
       unfolded Let_def]
  note html = failures_as_values
    [where parse = demo_parse and net = html_net and username = "''peter''"
       and postTitle = "''Promise-Chaining''" and w = 0 and pnet = html_pnet,
       unfolded Let_def]
  have d: "\<not> accepted (snd (last (issued ?down)))"
    by (simp add: getCommentsHandleErrs_down)
  have last_down: "snd (last (issued ?down)) = Failed ''ECONNREFUSED''"
    by (simp add: getCommentsHandleErrs_down)
  have h: "uncaught ?html \<noteq> None"
    by (simp add: getCommentsHandleErrs_html)
  have c: "(?u, Failed ''ECONNREFUSED'') \<in> set (issued ?cb)"
    by (simp add: getComments_down)
  have pd: "(?u, Rejected ''ECONNREFUSED'') \<in> set (requested (snd ?pdown))"
    by (simp add: getCommsPromisified_def promise_defs down_pnet_def)
  have not_json: "demo_parse ''<html></html>'' = None"
    by (simp add: demo_parse_def)
  have ph: "(?u, Fulfilled ''<html></html>'') \<in> set (requested (snd ?phtml)) \<and>
      demo_parse ''<html></html>'' = None"
    by (simp add: getCommsPromisified_def promise_defs html_pnet_def demo_parse_def)
  from down [THEN conjunct1, THEN conjunct1, rule_format, OF d]
  have never_fatal: "uncaught ?down = None \<and> length (calls ?down) = 1 \<and>
      calls ?down = [[Err (failure (snd (last (issued ?down))))]]"
    by simp
  from html [THEN conjunct1, THEN conjunct2, THEN conjunct1, rule_format, OF h]
  have thrown: "calls ?html = []"
    by simp
  from down [THEN conjunct2, THEN conjunct1, THEN conjunct1, rule_format, OF c]
  have ignored: "uncaught ?cb = Some SyntaxError"
    by simp
  from down [THEN conjunct2, THEN conjunct2, THEN conjunct2, THEN conjunct1, rule_format,
      OF pd]
  have passed_on: "fst ?pdown = Rejected (RequestError ''ECONNREFUSED'')"
    by simp
  from html [THEN conjunct2, THEN conjunct2, THEN conjunct2, THEN conjunct2, rule_format,
      OF ph]
  have not_parsed: "fst ?phtml = Rejected SyntaxError"
    by simp
  show ?thesis
    using d h c pd ph never_fatal thrown ignored passed_on not_parsed last_down
    by simp
qed

section \<open>The post that does not exist\<close>

text \<open>
  C7, as stated: the failure for the title Not-A-Real-Post has the step index 2 in it.
  It has not: what the caller's callback receives when the third request (index 2)
  comes back with status 404 is what it receives when the second request (index 1)
  does, for user paul: an \<open>Error\<close> whose only content is the message
  \<open>Failed request: status 404\<close>.
\<close>

theorem not_a_real_post_counterexample:
  "calls (getCommentsHandleErrs demo_parse demo_net ''peter'' ''Not-A-Real-Post''
      record_call (init 0)) = [[Err (Error ''Failed request: status 404'')]] \<and>
   length (issued (getCommentsHandleErrs demo_parse demo_net ''peter'' ''Not-A-Real-Post''
      record_call (init 0))) = 3 \<and>
   calls (getCommentsHandleErrs demo_parse demo_net ''paul'' ''Not-A-Real-Post''
      record_call (init 0)) = [[Err (Error ''Failed request: status 404'')]] \<and>
   length (issued (getCommentsHandleErrs demo_parse demo_net ''paul'' ''Not-A-Real-Post''
      record_call (init 0))) = 2"
  by (simp add: getCommentsHandleErrs_not_a_real_post getCommentsHandleErrs_paul)

text \<open>
  C7, amended: when \<open>getCommentsHandleErrs\<close> is called for user peter and the title
  Not-A-Real-Post, the requests for the user and for the blog come back with status 200
  and bodies from which the next locator is built, and the request for the blog post
  comes back with status 404, then exactly these three requests are issued (none for the
  comments), nothing is thrown, and the caller's callback is called once, with an
  \<open>Error\<close> whose message is \<open>Failed request: status 404\<close>.
\<close>

theorem not_a_real_post:
  fixes net :: "string \<Rightarrow> 'w \<Rightarrow> 'e response \<times> 'w"
  assumes "net (apiURL @ ''users/peter'') w = (Completed 200 t0, w1)"
    and "parse t0 = Some user"
    and "plus_id (apiURL @ ''blogs/'') user = (Inr u1 :: 'e jserror + string)"
    and "net u1 w1 = (Completed 200 t1, w2)"
    and "parse t1 = Some blog"
    and "plus_id (apiURL @ ''blogposts/'') blog = (Inr u2 :: 'e jserror + string)"
    and "net (u2 @ ''/Not-A-Real-Post'') w2 = (Completed 404 t2, w3)"
  shows "getCommentsHandleErrs parse net ''peter'' ''Not-A-Real-Post'' record_call (init w) =
     \<lparr>world = w3,
      issued =
        [(apiURL @ ''users/peter'', Completed 200 t0),
         (u1, Completed 200 t1),
         (u2 @ ''/Not-A-Real-Post'', Completed 404 t2)],
      calls = [[Err (Error ''Failed request: status 404'')]],
      uncaught = None\<rparr>"
  using assms
  by (simp add: getCommentsHandleErrs_def request_def evaluate_def record_call_def init_def
      decimal_404)

theorem not_a_real_post_witness:
  "demo_net (apiURL @ ''users/peter'') 0 = (Completed 200 ''{\"id\":7}'', 1) \<and>
   demo_parse ''{\"id\":7}'' = Some (JObject [(''id'', JNumber ''7'')]) \<and>
   plus_id (apiURL @ ''blogs/'') (JObject [(''id'', JNumber ''7'')]) =
     (Inr ''http://ctrl-alt-create.net/api/blogs/7'' :: string jserror + string) \<and>
   demo_net ''http://ctrl-alt-create.net/api/blogs/7'' 1 = (Completed 200 ''{\"id\":42}'', 2) \<and>
   demo_parse ''{\"id\":42}'' = Some (JObject [(''id'', JNumber ''42'')]) \<and>
   plus_id (apiURL @ ''blogposts/'') (JObject [(''id'', JNumber ''42'')]) =
     (Inr ''http://ctrl-alt-create.net/api/blogposts/42'' :: string jserror + string) \<and>
   demo_net (''http://ctrl-alt-create.net/api/blogposts/42'' @ ''/Not-A-Real-Post'') 2 =
     (Completed 404 ''Not Found'', 3) \<and>
   getCommentsHandleErrs demo_parse demo_net ''peter'' ''Not-A-Real-Post'' record_call (init 0) =
     \<lparr>world = 3,
      issued =
        [(apiURL @ ''users/peter'', Completed 200 ''{\"id\":7}''),
         (''http://ctrl-alt-create.net/api/blogs/7'', Completed 200 ''{\"id\":42}''),
         (''http://ctrl-alt-create.net/api/blogposts/42'' @ ''/Not-A-Real-Post'',
          Completed 404 ''Not Found'')],
      calls = [[Err (Error ''Failed request: status 404'')]],
      uncaught = None\<rparr>"
proof -
  have a1: "demo_net (apiURL @ ''users/peter'') 0 = (Completed 200 ''{\"id\":7}'', 1)"
    by (simp add: demo_defs apiURL_def)
  have a2: "demo_parse ''{\"id\":7}'' = Some (JObject [(''id'', JNumber ''7'')])"
    by (simp add: demo_parse_def)
  have a3: "plus_id (apiURL @ ''blogs/'') (JObject [(''id'', JNumber ''7'')]) =
      (Inr ''http://ctrl-alt-create.net/api/blogs/7'' :: string jserror + string)"
    by (simp add: plus_id_def plus_def apiURL_def)
  have a4: "demo_net ''http://ctrl-alt-create.net/api/blogs/7'' 1 =
      (Completed 200 ''{\"id\":42}'', 2)"
    by (simp add: demo_defs)
  have a5: "demo_parse ''{\"id\":42}'' = Some (JObject [(''id'', JNumber ''42'')])"
    by (simp add: demo_parse_def)
  have a6: "plus_id (apiURL @ ''blogposts/'') (JObject [(''id'', JNumber ''42'')]) =
      (Inr ''http://ctrl-alt-create.net/api/blogposts/42'' :: string jserror + string)"
    by (simp add: plus_id_def plus_def apiURL_def)
  have a7: "demo_net (''http://ctrl-alt-create.net/api/blogposts/42'' @ ''/Not-A-Real-Post'') 2 =
      (Completed 404 ''Not Found'', 3)"
    by (simp add: demo_defs)
  from not_a_real_post [OF a1 a2 a3 a4 a5 a6 a7] a1 a2 a3 a4 a5 a6 a7
  show ?thesis by (intro conjI)
qed

section \<open>Running a chain twice\<close>

text \<open>A collaborator whose answer to a locator does not depend on the state of the
  world answers as a function of the locator.\<close>

lemma deterministic_net:
  assumes "\<forall>url w w'. fst (net url w) = fst (net url w')"
  obtains answer next_world where "net = (\<lambda>url w. (answer url, next_world url w))"
proof
  show "net = (\<lambda>url w. (fst (net url undefined), snd (net url w)))"
  proof (intro ext)
    fix url w
    from assms have "fst (net url w) = fst (net url undefined)" by blast
    then show "net url w = (fst (net url undefined), snd (net url w))"
      by (simp add: prod_eq_iff)
  qed
qed

lemma getComments_any_world:
  "issued (getComments parse (\<lambda>url w. (answer url, next_world url w)) username postTitle
      record_call (init w)) =
   issued (getComments parse (\<lambda>url w. (answer url, next_world url w)) username postTitle
      record_call (init w')) \<and>
   calls (getComments parse (\<lambda>url w. (answer url, next_world url w)) username postTitle
      record_call (init w)) =
   calls (getComments parse (\<lambda>url w. (answer url, next_world url w)) username postTitle
      record_call (init w')) \<and>
   uncaught (getComments parse (\<lambda>url w. (answer url, next_world url w)) username postTitle
      record_call (init w)) =
   uncaught (getComments parse (\<lambda>url w. (answer url, next_world url w)) username postTitle
      record_call (init w'))"
  by (simp add: getComments_def request_def evaluate_def record_call_def init_def
      split: sum.split)

lemma getCommentsHandleErrs_any_world:
  "issued (getCommentsHandleErrs parse (\<lambda>url w. (answer url, next_world url w)) username
      postTitle record_call (init w)) =
   issued (getCommentsHandleErrs parse (\<lambda>url w. (answer url, next_world url w)) username
      postTitle record_call (init w')) \<and>
   calls (getCommentsHandleErrs parse (\<lambda>url w. (answer url, next_world url w)) username
      postTitle record_call (init w)) =
   calls (getCommentsHandleErrs parse (\<lambda>url w. (answer url, next_world url w)) username
      postTitle record_call (init w')) \<and>
   uncaught (getCommentsHandleErrs parse (\<lambda>url w. (answer url, next_world url w)) username
      postTitle record_call (init w)) =
   uncaught (getCommentsHandleErrs parse (\<lambda>url w. (answer url, next_world url w)) username
      postTitle record_call (init w'))"
  by (simp add: getCommentsHandleErrs_def request_def evaluate_def record_call_def init_def
      split: sum.split response.split)

lemma getCommsPromisified_any_world:
  "fst (getCommsPromisified parse (\<lambda>url w. (answer url, next_world url w)) username
      postTitle (pinit w)) =
   fst (getCommsPromisified parse (\<lambda>url w. (answer url, next_world url w)) username
      postTitle (pinit w')) \<and>
   requested (snd (getCommsPromisified parse (\<lambda>url w. (answer url, next_world url w))
      username postTitle (pinit w))) =
   requested (snd (getCommsPromisified parse (\<lambda>url w. (answer url, next_world url w))
      username postTitle (pinit w')))"
  by (simp add: getCommsPromisified_def reqPromise_def promise_then_def
      evaluate_in_then_def returns_def pinit_def split: sum.split settled.split)

lemma getCommsPromisified2_eq:
  "getCommsPromisified2 parse net username postTitle =
   getCommsPromisified parse net username postTitle"
  by (simp add: getCommsPromisified2_def getCommsPromisified_def)

lemma getCommsPromisifiedHandleErrs_eq:
  "getCommsPromisifiedHandleErrs parse net username postTitle =
   getCommsPromisified parse net username postTitle"
  by (simp add: getCommsPromisifiedHandleErrs_def getCommsPromisified_def)

text \<open>
  C8: against a collaborator whose answer to a locator does not depend on the state of
  the world, a second run of a chain with the same arguments, started in the world that
  the first run left behind, issues the same requests, gets the same answers and
  delivers the same to the caller: the same calls of the callback and the same uncaught
  exception for the callback chains, the same settled promise for the promise chains.
  A run reads nothing but its arguments, the answers and \<open>apiURL\<close>.
\<close>

theorem second_run_same_result:
  assumes "\<forall>url w w'. fst (net url w) = fst (net url w')"
    and "\<forall>url w w'. fst (pnet url w) = fst (pnet url w')"
  shows
  "(let first = getComments parse net username postTitle record_call (init w);
        second = getComments parse net username postTitle record_call (init (world first))
    in issued second = issued first \<and> calls second = calls first \<and>
       uncaught second = uncaught first) \<and>
   (let first = getCommentsHandleErrs parse net username postTitle record_call (init w);
        second = getCommentsHandleErrs parse net username postTitle record_call
          (init (world first))
    in issued second = issued first \<and> calls second = calls first \<and>
       uncaught second = uncaught first) \<and>
   (let first = getCommsPromisified parse pnet username postTitle (pinit w);
        second = getCommsPromisified parse pnet username postTitle
          (pinit (pworld (snd first)))
    in fst second = fst first \<and> requested (snd second) = requested (snd first)) \<and>
   (let first = getCommsPromisified2 parse pnet username postTitle (pinit w);
        second = getCommsPromisified2 parse pnet username postTitle
          (pinit (pworld (snd first)))
    in fst second = fst first \<and> requested (snd second) = requested (snd first)) \<and>
   (let first = getCommsPromisifiedHandleErrs parse pnet username postTitle (pinit w);
        second = getCommsPromisifiedHandleErrs parse pnet username postTitle
          (pinit (pworld (snd first)))
    in fst second = fst first \<and> requested (snd second) = requested (snd first))"
proof -
  from assms(1) obtain answer next_world
    where net: "net = (\<lambda>url w. (answer url, next_world url w))"
    by (rule deterministic_net)
  from assms(2) obtain panswer pnext_world
    where pnet: "pnet = (\<lambda>url w. (panswer url, pnext_world url w))"
    by (rule deterministic_net)
  show ?thesis
    unfolding Let_def net pnet getCommsPromisified2_eq getCommsPromisifiedHandleErrs_eq
    using getComments_any_world [of parse answer next_world username postTitle]
      getCommentsHandleErrs_any_world [of parse answer next_world username postTitle]
      getCommsPromisified_any_world [of parse panswer pnext_world username postTitle]
    by (intro conjI) blast+
qed

theorem second_run_same_result_witness:
  "(\<forall>url w w'. fst (demo_net url w) = fst (demo_net url w')) \<and>
   (\<forall>url w w'. fst (demo_pnet url w) = fst (demo_pnet url w')) \<and>
   world (getCommentsHandleErrs demo_parse demo_net ''peter'' ''Not-A-Real-Post''
     record_call (init 0)) = 3 \<and>
   calls (getCommentsHandleErrs demo_parse demo_net ''peter'' ''Not-A-Real-Post''
     record_call (init 3)) =
   calls (getCommentsHandleErrs demo_parse demo_net ''peter'' ''Not-A-Real-Post''
     record_call (init 0)) \<and>
   pworld (snd (getCommsPromisified2 demo_parse demo_pnet ''peter'' ''Promise-Chaining''
     (pinit 0))) = 4 \<and>
   fst (getCommsPromisified2 demo_parse demo_pnet ''peter'' ''Promise-Chaining'' (pinit 4)) =
   fst (getCommsPromisified2 demo_parse demo_pnet ''peter'' ''Promise-Chaining'' (pinit 0))"
proof -
  have net: "\<forall>url w w'. fst (demo_net url w) = fst (demo_net url w')"
    by (simp add: demo_net_def split: prod.split)
  have pnet: "\<forall>url w w'. fst (demo_pnet url w) = fst (demo_pnet url w')"
    by (simp add: demo_pnet_def split: prod.split)
  have w3: "world (getCommentsHandleErrs demo_parse demo_net ''peter'' ''Not-A-Real-Post''
      record_call (init 0)) = 3"
    by (simp add: getCommentsHandleErrs_not_a_real_post)
  have w4: "pworld (snd (getCommsPromisified2 demo_parse demo_pnet ''peter''
      ''Promise-Chaining'' (pinit 0))) = 4"
    by (simp add: getCommsPromisified2_peter)
  from second_run_same_result [OF net pnet, of demo_parse "''peter''" "''Not-A-Real-Post''" 0]
    second_run_same_result [OF net pnet, of demo_parse "''peter''" "''Promise-Chaining''" 0]
  show ?thesis using net pnet w3 w4
    by (simp add: Let_def)
qed

section \<open>The three promise chains\<close>

text \<open>
  C9: \<open>getCommsPromisified\<close>, \<open>getCommsPromisified2\<close> and
  \<open>getCommsPromisifiedHandleErrs\<close> are the same function: for every grammar, every
  collaborator, every user name and title and every state in which they start, they
  issue the same requests and return a promise that settles the same way. The third has
  no handling of errors that the first two lack.
\<close>

theorem promise_chains_equal:
  "getCommsPromisified parse net username postTitle st =
     getCommsPromisified2 parse net username postTitle st \<and>
   getCommsPromisified2 parse net username postTitle st =
     getCommsPromisifiedHandleErrs parse net username postTitle st"
  by (simp add: getCommsPromisified_def getCommsPromisified2_def
      getCommsPromisifiedHandleErrs_def)

section \<open>The locators of the two callback chains\<close>

text \<open>
  C10 says that \<open>getComments\<close> and \<open>getCommentsHandleErrs\<close> issue the same four
  locators when every step succeeds. Against the server, for user peter and the title
  Promise-Chaining, every step of both succeeds and both deliver the comments, yet the
  fourth locator of \<open>getCommentsHandleErrs\<close> has a doubled slash: it is built from
  \<open>apiURL + '/comments/'\<close>, where \<open>getComments\<close> and the three promise chains have
  \<open>apiURL + 'comments/'\<close>.
\<close>

theorem comments_locator_differs:
  "map fst (issued (getComments demo_parse demo_net ''peter'' ''Promise-Chaining''
      record_call (init 0))) =
     [''http://ctrl-alt-create.net/api/users/peter'',
      ''http://ctrl-alt-create.net/api/blogs/7'',
      ''http://ctrl-alt-create.net/api/blogposts/42/Promise-Chaining'',
      ''http://ctrl-alt-create.net/api/comments/99''] \<and>
   map fst (issued (getCommentsHandleErrs demo_parse demo_net ''peter'' ''Promise-Chaining''
      record_call (init 0))) =
     [''http://ctrl-alt-create.net/api/users/peter'',
      ''http://ctrl-alt-create.net/api/blogs/7'',
      ''http://ctrl-alt-create.net/api/blogposts/42/Promise-Chaining'',
      ''http://ctrl-alt-create.net/api//comments/99''] \<and>
   map fst (issued (getComments demo_parse demo_net ''peter'' ''Promise-Chaining''
      record_call (init 0))) \<noteq>
   map fst (issued (getCommentsHandleErrs demo_parse demo_net ''peter'' ''Promise-Chaining''
      record_call (init 0))) \<and>
   calls (getComments demo_parse demo_net ''peter'' ''Promise-Chaining''
      record_call (init 0)) =
     [[Val (JArray [JObject [(''text'', JString ''nice'')]])]] \<and>
   calls (getCommentsHandleErrs demo_parse demo_net ''peter'' ''Promise-Chaining''
      record_call (init 0)) =
     [[Val JNull, Val (JArray [JObject [(''text'', JString ''nice'')]])]]"
  by (simp add: getComments_peter getCommentsHandleErrs_peter)

end
